theory Spec2Isabelle
  imports Main "HOL-Library.Sublist"
begin

section \<open>Regular expressions used as parameter patterns\<close>

text \<open>
  The patterns of \<^verbatim>\<open>argparse.js\<close> are JavaScript regular-expression sources which the
  schema validator compiles with \<^verbatim>\<open>new RegExp(pattern)\<close> and applies with
  \<^verbatim>\<open>.test(value)\<close>: an unanchored search, in which \<^verbatim>\<open>^\<close> and \<^verbatim>\<open>$\<close> are zero-width
  assertions on the position. The patterns are kept here in parsed form. Capturing groups
  do not influence \<^verbatim>\<open>test\<close> and are dropped; a character range such as \<^verbatim>\<open>[0-9a-f]\<close> is
  written out as the list of its members.
\<close>

datatype regex =
    Bol
  | Eol
  | Lit string
  | Dot
  | Class string
  | NClass string
  | Seq regex regex
  | Alt regex regex
  | Rep nat "nat option" regex

text \<open>\<^verbatim>\<open>.\<close> matches every character but a line terminator.\<close>

definition line_terminators :: string where
  "line_terminators = [CHR 0x0A, CHR 0x0D]"

text \<open>\<open>iter f k ps\<close>: the positions reached from \<open>ps\<close> by \<open>k\<close> rounds of \<open>f\<close>.\<close>

fun iter :: "(nat \<Rightarrow> nat list) \<Rightarrow> nat \<Rightarrow> nat list \<Rightarrow> nat list" where
  "iter f 0 ps = ps"
| "iter f (Suc k) ps = iter f k (remdups (concat (map f ps)))"

text \<open>
  A quantifier \<^verbatim>\<open>{lo,hi}\<close> (\<^verbatim>\<open>*\<close> is \<^verbatim>\<open>{0,}\<close>, \<^verbatim>\<open>+\<close> is \<^verbatim>\<open>{1,}\<close>, \<^verbatim>\<open>?\<close> is \<^verbatim>\<open>{0,1}\<close>).
  Without an upper bound, \<open>lo + n\<close> rounds are enough on a subject of length \<open>n\<close>:
  a round that consumes nothing reaches no new position.
\<close>

definition repeat :: "(nat \<Rightarrow> nat list) \<Rightarrow> nat \<Rightarrow> nat option \<Rightarrow> nat \<Rightarrow> nat \<Rightarrow> nat list" where
  "repeat f lo hi n i =
     concat (map (\<lambda>k. iter f k [i]) [lo ..< Suc (case hi of Some h \<Rightarrow> h | None \<Rightarrow> lo + n)])"

text \<open>
  \<open>rmatch r s i\<close>: every position \<open>j\<close> such that \<open>r\<close> matches the characters of \<open>s\<close>
  from position \<open>i\<close> up to position \<open>j\<close>.
\<close>

primrec rmatch :: "regex \<Rightarrow> string \<Rightarrow> nat \<Rightarrow> nat list" where
  "rmatch Bol s i = (if i = 0 then [i] else [])"
| "rmatch Eol s i = (if i = length s then [i] else [])"
| "rmatch (Lit w) s i = (if take (length w) (drop i s) = w then [i + length w] else [])"
| "rmatch Dot s i = (if i < length s \<and> s ! i \<notin> set line_terminators then [Suc i] else [])"
| "rmatch (Class cs) s i = (if i < length s \<and> s ! i \<in> set cs then [Suc i] else [])"
| "rmatch (NClass cs) s i = (if i < length s \<and> s ! i \<notin> set cs then [Suc i] else [])"
| "rmatch (Seq a b) s i = concat (map (rmatch b s) (rmatch a s i))"
| "rmatch (Alt a b) s i = rmatch a s i @ rmatch b s i"
| "rmatch (Rep lo hi a) s i = repeat (rmatch a s) lo hi (length s) i"

text \<open>\<^verbatim>\<open>new RegExp(pattern).test(s)\<close>: some match starts at some position of \<open>s\<close>.\<close>

definition regex_test :: "regex \<Rightarrow> string \<Rightarrow> bool" where
  "regex_test r s = list_ex (\<lambda>i. rmatch r s i \<noteq> []) [0 ..< Suc (length s)]"

section \<open>The command registry: data model\<close>

text \<open>
  One entry of a command's \<^verbatim>\<open>items\<close> array. Every entry of the registry has
  \<^verbatim>\<open>type: 'string'\<close>; all values handled here are strings, so that field is not kept.
  \<^verbatim>\<open>name\<close> and \<^verbatim>\<open>pattern\<close> are optional in the code.
\<close>

record param =
  name :: "string option"
  realtype :: string
  pattern :: "regex option"

text \<open>
  One command of \<^verbatim>\<open>CLI_ARGS.properties\<close>. \<^verbatim>\<open>help\<close> and \<^verbatim>\<open>group\<close> are documentation
  read by the usage printer only.
\<close>

record command_info =
  items :: "param list"
  minItems :: nat
  maxItems :: nat

type_synonym registry = "(string \<times> command_info) list"

section \<open>The patterns of the registry\<close>

definition digits :: string where
  "digits = ''0123456789''"

definition hex_chars :: string where
  "hex_chars = ''0123456789abcdef''"

text \<open>\<^verbatim>\<open>'^([0-9a-z_.+-]{3,37})$'\<close>\<close>

definition NAME_PATTERN :: regex where
  "NAME_PATTERN =
     Seq Bol (Seq (Rep 3 (Some 37) (Class ''0123456789abcdefghijklmnopqrstuvwxyz_.+-'')) Eol)"

text \<open>\<^verbatim>\<open>'^([0-9a-z_-]{1,19})$'\<close>\<close>

definition NAMESPACE_PATTERN :: regex where
  "NAMESPACE_PATTERN =
     Seq Bol (Seq (Rep 1 (Some 19) (Class ''0123456789abcdefghijklmnopqrstuvwxyz_-'')) Eol)"

text \<open>\<^verbatim>\<open>'[123456789ABCDEFGHJKLMNPQRSTUVWXYZabcdefghijkmnopqrstuvwxyz]{1,35}'\<close>\<close>

definition ADDRESS_CHARS :: regex where
  "ADDRESS_CHARS =
     Rep 1 (Some 35) (Class ''123456789ABCDEFGHJKLMNPQRSTUVWXYZabcdefghijkmnopqrstuvwxyz'')"

text \<open>\<^verbatim>\<open>'[0123456789ABCDEFGHJKMNPQRSTVWXYZ]+'\<close>\<close>

definition C32_ADDRESS_CHARS :: regex where
  "C32_ADDRESS_CHARS = Rep 1 None (Class ''0123456789ABCDEFGHJKMNPQRSTVWXYZ'')"

definition ADDRESS_PATTERN :: regex where
  "ADDRESS_PATTERN = Seq Bol (Seq ADDRESS_CHARS Eol)"

definition ID_ADDRESS_PATTERN :: regex where
  "ID_ADDRESS_PATTERN = Seq Bol (Seq (Lit ''ID-'') (Seq ADDRESS_CHARS Eol))"

definition STACKS_ADDRESS_PATTERN :: regex where
  "STACKS_ADDRESS_PATTERN = Seq Bol (Seq C32_ADDRESS_CHARS Eol)"

text \<open>\<^verbatim>\<open>'^([0-9a-f]{64,66})$'\<close>\<close>

definition PRIVATE_KEY_PATTERN :: regex where
  "PRIVATE_KEY_PATTERN = Seq Bol (Seq (Rep 64 (Some 66) (Class hex_chars)) Eol)"

text \<open>\<^verbatim>\<open>'^([0-9a-f]{64})$'\<close>\<close>

definition PRIVATE_KEY_UNCOMPRESSED_PATTERN :: regex where
  "PRIVATE_KEY_UNCOMPRESSED_PATTERN = Seq Bol (Seq (Rep 64 (Some 64) (Class hex_chars)) Eol)"

text \<open>\<^verbatim>\<open>'^([0-9]+),([0-9a-f]{64,66},)*([0-9a-f]{64,66})$'\<close>\<close>

definition PRIVATE_KEY_MULTISIG_PATTERN :: regex where
  "PRIVATE_KEY_MULTISIG_PATTERN =
     Seq Bol (Seq (Rep 1 None (Class digits)) (Seq (Lit '','')
       (Seq (Rep 0 None (Seq (Rep 64 (Some 66) (Class hex_chars)) (Lit '','')))
         (Seq (Rep 64 (Some 66) (Class hex_chars)) Eol))))"

text \<open>\<^verbatim>\<open>`^segwit:p2sh:([0-9]+),([0-9a-f]{64,66},)*([0-9a-f]{64,66})$`\<close>\<close>

definition PRIVATE_KEY_SEGWIT_P2SH_PATTERN :: regex where
  "PRIVATE_KEY_SEGWIT_P2SH_PATTERN =
     Seq Bol (Seq (Lit ''segwit:p2sh:'') (Seq (Rep 1 None (Class digits)) (Seq (Lit '','')
       (Seq (Rep 0 None (Seq (Rep 64 (Some 66) (Class hex_chars)) (Lit '','')))
         (Seq (Rep 64 (Some 66) (Class hex_chars)) Eol)))))"

definition PRIVATE_KEY_PATTERN_ANY :: regex where
  "PRIVATE_KEY_PATTERN_ANY =
     Alt PRIVATE_KEY_PATTERN (Alt PRIVATE_KEY_MULTISIG_PATTERN PRIVATE_KEY_SEGWIT_P2SH_PATTERN)"

text \<open>\<^verbatim>\<open>'^([0-9a-f]{66,130})$'\<close>\<close>

definition PUBLIC_KEY_PATTERN :: regex where
  "PUBLIC_KEY_PATTERN = Seq Bol (Seq (Rep 66 (Some 130) (Class hex_chars)) Eol)"

text \<open>\<^verbatim>\<open>'^-?[0-9]+$'\<close>\<close>

definition INT_PATTERN :: regex where
  "INT_PATTERN = Seq Bol (Seq (Rep 0 (Some 1) (Lit ''-'')) (Seq (Rep 1 None (Class digits)) Eol))"

text \<open>\<^verbatim>\<open>'^([0-9a-f]{40})$'\<close>\<close>

definition ZONEFILE_HASH_PATTERN :: regex where
  "ZONEFILE_HASH_PATTERN = Seq Bol (Seq (Rep 40 (Some 40) (Class hex_chars)) Eol)"

text \<open>\<^verbatim>\<open>"^http[s]?://.+$"\<close>\<close>

definition URL_PATTERN :: regex where
  "URL_PATTERN =
     Seq Bol (Seq (Lit ''http'') (Seq (Rep 0 (Some 1) (Class ''s'')) (Seq (Lit ''://'')
       (Seq (Rep 1 None Dot) Eol))))"

text \<open>
  \<^verbatim>\<open>'^([0-9a-z_+-]{1,37})\.([0-9a-z_.+-]{3,37})$'\<close>: the source is an ordinary string
  literal, in which \<^verbatim>\<open>\.\<close> is the single character \<^verbatim>\<open>.\<close>; the compiled expression
  therefore has the wildcard between the two labels.
\<close>

definition SUBDOMAIN_PATTERN :: regex where
  "SUBDOMAIN_PATTERN =
     Seq Bol (Seq (Rep 1 (Some 37) (Class ''0123456789abcdefghijklmnopqrstuvwxyz_+-''))
       (Seq Dot (Seq (Rep 3 (Some 37) (Class ''0123456789abcdefghijklmnopqrstuvwxyz_.+-'')) Eol)))"

text \<open>\<^verbatim>\<open>'^([0-9a-f]{64})$'\<close>\<close>

definition TXID_PATTERN :: regex where
  "TXID_PATTERN = Seq Bol (Seq (Rep 64 (Some 64) (Class hex_chars)) Eol)"

text \<open>\<^verbatim>\<open>'^[/]+.+$'\<close>\<close>

definition PATH_PATTERN :: regex where
  "PATH_PATTERN = Seq Bol (Seq (Rep 1 None (Class ''/'')) (Seq (Rep 1 None Dot) Eol))"

text \<open>\<^verbatim>\<open>'^(0|1|true|false)$'\<close>\<close>

definition BOOLEAN_PATTERN :: regex where
  "BOOLEAN_PATTERN =
     Seq Bol (Seq (Alt (Lit ''0'') (Alt (Lit ''1'') (Alt (Lit ''true'') (Lit ''false'')))) Eol)"

section \<open>The registry \<^verbatim>\<open>CLI_ARGS.properties\<close>\<close>

text \<open>
  One definition per command, in the order of the source; a pattern built in place in the
  source (a template string or a concatenation) is built in place here.
\<close>

definition cmd_announce :: command_info where
  "cmd_announce =
     \<lparr>items = [
       \<lparr>name = Some ''message_hash'', realtype = ''zonefile_hash'',
        pattern = Some ZONEFILE_HASH_PATTERN\<rparr>,
       \<lparr>name = Some ''owner_key'', realtype = ''private_key'',
        pattern = Some PRIVATE_KEY_PATTERN_ANY\<rparr>],
      minItems = 2, maxItems = 2\<rparr>"

definition cmd_authenticator :: command_info where
  "cmd_authenticator =
     \<lparr>items = [
       \<lparr>name = Some ''app_gaia_hub'', realtype = ''url'',
        pattern = Some URL_PATTERN\<rparr>,
       \<lparr>name = Some ''backup_phrase'', realtype = ''12_words_or_ciphertext'',
        pattern = Some (Rep 1 None Dot)\<rparr>,
       \<lparr>name = Some ''profileGaiaHub'', realtype = ''url'',
        pattern = Some URL_PATTERN\<rparr>,
       \<lparr>name = Some ''port'', realtype = ''portnum'',
        pattern = Some (Seq Bol (Rep 1 None (Class digits)))\<rparr>],
      minItems = 2, maxItems = 4\<rparr>"

definition cmd_balance :: command_info where
  "cmd_balance =
     \<lparr>items = [
       \<lparr>name = Some ''address'', realtype = ''address'',
        pattern = Some (Alt ADDRESS_PATTERN STACKS_ADDRESS_PATTERN)\<rparr>],
      minItems = 1, maxItems = 1\<rparr>"

definition cmd_convert_address :: command_info where
  "cmd_convert_address =
     \<lparr>items = [
       \<lparr>name = Some ''address'', realtype = ''address'',
        pattern = Some (Alt ADDRESS_PATTERN STACKS_ADDRESS_PATTERN)\<rparr>],
      minItems = 1, maxItems = 1\<rparr>"

definition cmd_decrypt_keychain :: command_info where
  "cmd_decrypt_keychain =
     \<lparr>items = [
       \<lparr>name = Some ''encrypted_backup_phrase'', realtype = ''encrypted_backup_phrase'',
        pattern = Some (Seq Bol (Seq (Rep 1 None (NClass '' '')) Eol))\<rparr>,
       \<lparr>name = Some ''password'', realtype = ''password'',
        pattern = Some (Rep 1 None Dot)\<rparr>],
      minItems = 1, maxItems = 2\<rparr>"

definition cmd_encrypt_keychain :: command_info where
  "cmd_encrypt_keychain =
     \<lparr>items = [
       \<lparr>name = Some ''backup_phrase'', realtype = ''backup_phrase'',
        pattern = Some (Rep 1 None Dot)\<rparr>,
       \<lparr>name = Some ''password'', realtype = ''password'',
        pattern = Some (Rep 1 None Dot)\<rparr>],
      minItems = 1, maxItems = 2\<rparr>"

definition cmd_gaia_dump_bucket :: command_info where
  "cmd_gaia_dump_bucket =
     \<lparr>items = [
       \<lparr>name = Some ''name_or_id_address'', realtype = ''name_or_id_address'',
        pattern = Some (Alt ID_ADDRESS_PATTERN (Alt NAME_PATTERN SUBDOMAIN_PATTERN))\<rparr>,
       \<lparr>name = Some ''app_origin'', realtype = ''url'',
        pattern = Some URL_PATTERN\<rparr>,
       \<lparr>name = Some ''gaia_hub'', realtype = ''url'',
        pattern = Some URL_PATTERN\<rparr>,
       \<lparr>name = Some ''backup_phrase'', realtype = ''12_words_or_ciphertext'',
        pattern = None\<rparr>,
       \<lparr>name = Some ''dump_dir'', realtype = ''path'',
        pattern = Some PATH_PATTERN\<rparr>],
      minItems = 5, maxItems = 5\<rparr>"

definition cmd_gaia_getfile :: command_info where
  "cmd_gaia_getfile =
     \<lparr>items = [
       \<lparr>name = Some ''blockstack_id'', realtype = ''blockstack_id'',
        pattern = Some (Alt NAME_PATTERN (Seq SUBDOMAIN_PATTERN Eol))\<rparr>,
       \<lparr>name = Some ''app_origin'', realtype = ''url'',
        pattern = Some URL_PATTERN\<rparr>,
       \<lparr>name = Some ''filename'', realtype = ''filename'',
        pattern = Some (Rep 1 None Dot)\<rparr>,
       \<lparr>name = Some ''app_private_key'', realtype = ''private_key'',
        pattern = Some PRIVATE_KEY_UNCOMPRESSED_PATTERN\<rparr>,
       \<lparr>name = Some ''decrypt'', realtype = ''boolean'',
        pattern = Some BOOLEAN_PATTERN\<rparr>,
       \<lparr>name = Some ''verify'', realtype = ''boolean'',
        pattern = Some BOOLEAN_PATTERN\<rparr>],
      minItems = 3, maxItems = 6\<rparr>"

definition cmd_gaia_putfile :: command_info where
  "cmd_gaia_putfile =
     \<lparr>items = [
       \<lparr>name = Some ''gaia_hub'', realtype = ''url'',
        pattern = Some URL_PATTERN\<rparr>,
       \<lparr>name = Some ''app_private_key'', realtype = ''private_key'',
        pattern = Some PRIVATE_KEY_UNCOMPRESSED_PATTERN\<rparr>,
       \<lparr>name = Some ''data_path'', realtype = ''path'',
        pattern = Some (Rep 1 None Dot)\<rparr>,
       \<lparr>name = Some ''gaia_filename'', realtype = ''filename'',
        pattern = Some PATH_PATTERN\<rparr>,
       \<lparr>name = Some ''encrypt'', realtype = ''boolean'',
        pattern = Some BOOLEAN_PATTERN\<rparr>,
       \<lparr>name = Some ''sign'', realtype = ''boolean'',
        pattern = Some BOOLEAN_PATTERN\<rparr>],
      minItems = 4, maxItems = 6\<rparr>"

definition cmd_gaia_listfiles :: command_info where
  "cmd_gaia_listfiles =
     \<lparr>items = [
       \<lparr>name = Some ''gaia_hub'', realtype = ''url'',
        pattern = Some URL_PATTERN\<rparr>,
       \<lparr>name = Some ''app_private_key'', realtype = ''private_key'',
        pattern = Some PRIVATE_KEY_UNCOMPRESSED_PATTERN\<rparr>],
      minItems = 2, maxItems = 2\<rparr>"

definition cmd_gaia_restore_bucket :: command_info where
  "cmd_gaia_restore_bucket =
     \<lparr>items = [
       \<lparr>name = Some ''name_or_id_address'', realtype = ''name_or_id_address'',
        pattern = Some (Alt ID_ADDRESS_PATTERN (Alt NAME_PATTERN SUBDOMAIN_PATTERN))\<rparr>,
       \<lparr>name = Some ''app_origin'', realtype = ''url'',
        pattern = Some URL_PATTERN\<rparr>,
       \<lparr>name = Some ''gaia_hub'', realtype = ''url'',
        pattern = Some URL_PATTERN\<rparr>,
       \<lparr>name = Some ''backup_phrase'', realtype = ''12_words_or_ciphertext'',
        pattern = None\<rparr>,
       \<lparr>name = Some ''dump_dir'', realtype = ''path'',
        pattern = Some PATH_PATTERN\<rparr>],
      minItems = 5, maxItems = 5\<rparr>"

definition cmd_gaia_sethub :: command_info where
  "cmd_gaia_sethub =
     \<lparr>items = [
       \<lparr>name = Some ''blockstack_id'', realtype = ''blockstack_id'',
        pattern = Some (Alt (Seq Bol NAME_PATTERN) (Seq SUBDOMAIN_PATTERN Eol))\<rparr>,
       \<lparr>name = Some ''owner_gaia_hub'', realtype = ''url'',
        pattern = Some URL_PATTERN\<rparr>,
       \<lparr>name = Some ''app_origin'', realtype = ''url'',
        pattern = Some URL_PATTERN\<rparr>,
       \<lparr>name = Some ''app_gaia_hub'', realtype = ''url'',
        pattern = Some URL_PATTERN\<rparr>,
       \<lparr>name = Some ''backup_phrase'', realtype = ''12_words_or_ciphertext'',
        pattern = None\<rparr>],
      minItems = 5, maxItems = 5\<rparr>"

definition cmd_get_account_history :: command_info where
  "cmd_get_account_history =
     \<lparr>items = [
       \<lparr>name = Some ''address'', realtype = ''address'',
        pattern = Some STACKS_ADDRESS_PATTERN\<rparr>,
       \<lparr>name = Some ''startblock'', realtype = ''integer'',
        pattern = Some (Seq Bol (Seq (Rep 1 None (Class digits)) Eol))\<rparr>,
       \<lparr>name = Some ''endblock'', realtype = ''integer'',
        pattern = Some (Seq Bol (Seq (Rep 1 None (Class digits)) Eol))\<rparr>,
       \<lparr>name = Some ''page'', realtype = ''integer'',
        pattern = Some (Seq Bol (Seq (Rep 1 None (Class digits)) Eol))\<rparr>],
      minItems = 4, maxItems = 4\<rparr>"

definition cmd_get_account_at :: command_info where
  "cmd_get_account_at =
     \<lparr>items = [
       \<lparr>name = Some ''address'', realtype = ''address'',
        pattern = Some STACKS_ADDRESS_PATTERN\<rparr>,
       \<lparr>name = Some ''blocknumber'', realtype = ''integer'',
        pattern = Some (Seq Bol (Seq (Rep 1 None (Class digits)) Eol))\<rparr>],
      minItems = 2, maxItems = 2\<rparr>"

definition cmd_get_address :: command_info where
  "cmd_get_address =
     \<lparr>items = [
       \<lparr>name = Some ''private_key'', realtype = ''private_key'',
        pattern = Some PRIVATE_KEY_PATTERN_ANY\<rparr>],
      minItems = 1, maxItems = 1\<rparr>"

definition cmd_get_blockchain_record :: command_info where
  "cmd_get_blockchain_record =
     \<lparr>items = [
       \<lparr>name = Some ''blockstack_id'', realtype = ''blockstack_id'',
        pattern = Some (Alt (Seq Bol NAME_PATTERN) (Seq SUBDOMAIN_PATTERN Eol))\<rparr>],
      minItems = 1, maxItems = 1\<rparr>"

definition cmd_get_blockchain_history :: command_info where
  "cmd_get_blockchain_history =
     \<lparr>items = [
       \<lparr>name = Some ''blockstack_id'', realtype = ''blockstack_id'',
        pattern = Some (Alt NAME_PATTERN (Seq SUBDOMAIN_PATTERN Eol))\<rparr>],
      minItems = 1, maxItems = 1\<rparr>"

definition cmd_get_confirmations :: command_info where
  "cmd_get_confirmations =
     \<lparr>items = [
       \<lparr>name = Some ''txid'', realtype = ''transaction_id'',
        pattern = Some TXID_PATTERN\<rparr>],
      minItems = 1, maxItems = 1\<rparr>"

definition cmd_get_namespace_blockchain_record :: command_info where
  "cmd_get_namespace_blockchain_record =
     \<lparr>items = [
       \<lparr>name = Some ''namespace_id'', realtype = ''namespace_id'',
        pattern = Some NAMESPACE_PATTERN\<rparr>],
      minItems = 1, maxItems = 1\<rparr>"

definition cmd_get_app_keys :: command_info where
  "cmd_get_app_keys =
     \<lparr>items = [
       \<lparr>name = Some ''backup_phrase'', realtype = ''12_words_or_ciphertext'',
        pattern = None\<rparr>,
       \<lparr>name = Some ''name_or_id_address'', realtype = ''name-or-id-address'',
        pattern = Some (Alt NAME_PATTERN (Alt SUBDOMAIN_PATTERN ID_ADDRESS_PATTERN))\<rparr>,
       \<lparr>name = Some ''app_origin'', realtype = ''url'',
        pattern = Some URL_PATTERN\<rparr>],
      minItems = 3, maxItems = 3\<rparr>"

definition cmd_get_owner_keys :: command_info where
  "cmd_get_owner_keys =
     \<lparr>items = [
       \<lparr>name = Some ''backup_phrase'', realtype = ''12_words_or_ciphertext'',
        pattern = None\<rparr>,
       \<lparr>name = Some ''index'', realtype = ''integer'',
        pattern = Some (Seq Bol (Seq (Rep 1 None (Class digits)) Eol))\<rparr>],
      minItems = 1, maxItems = 2\<rparr>"

definition cmd_get_payment_key :: command_info where
  "cmd_get_payment_key =
     \<lparr>items = [
       \<lparr>name = Some ''backup_phrase'', realtype = ''12_words_or_ciphertext'',
        pattern = None\<rparr>],
      minItems = 1, maxItems = 1\<rparr>"

definition cmd_get_zonefile :: command_info where
  "cmd_get_zonefile =
     \<lparr>items = [
       \<lparr>name = Some ''blockstack_id'', realtype = ''blockstack_id'',
        pattern = Some (Alt NAME_PATTERN (Seq SUBDOMAIN_PATTERN Eol))\<rparr>],
      minItems = 1, maxItems = 1\<rparr>"

definition cmd_help :: command_info where
  "cmd_help =
     \<lparr>items = [
       \<lparr>name = Some ''command'', realtype = ''command'',
        pattern = None\<rparr>],
      minItems = 0, maxItems = 1\<rparr>"

definition cmd_lookup :: command_info where
  "cmd_lookup =
     \<lparr>items = [
       \<lparr>name = Some ''blockstack_id'', realtype = ''blockstack_id'',
        pattern = Some (Alt NAME_PATTERN (Seq SUBDOMAIN_PATTERN Eol))\<rparr>],
      minItems = 1, maxItems = 1\<rparr>"

definition cmd_names :: command_info where
  "cmd_names =
     \<lparr>items = [
       \<lparr>name = Some ''id_address'', realtype = ''id-address'',
        pattern = Some ID_ADDRESS_PATTERN\<rparr>],
      minItems = 1, maxItems = 1\<rparr>"

definition cmd_make_keychain :: command_info where
  "cmd_make_keychain =
     \<lparr>items = [
       \<lparr>name = Some ''backup_phrase'', realtype = ''12_words_or_ciphertext'',
        pattern = None\<rparr>],
      minItems = 0, maxItems = 1\<rparr>"

definition cmd_make_zonefile :: command_info where
  "cmd_make_zonefile =
     \<lparr>items = [
       \<lparr>name = Some ''blockstack_id'', realtype = ''blockstack_id'',
        pattern = Some (Alt (Seq Bol NAME_PATTERN) (Seq SUBDOMAIN_PATTERN Eol))\<rparr>,
       \<lparr>name = Some ''id_address'', realtype = ''ID-address'',
        pattern = Some ID_ADDRESS_PATTERN\<rparr>,
       \<lparr>name = Some ''gaia_url_prefix'', realtype = ''url'',
        pattern = Some (Rep 1 None Dot)\<rparr>,
       \<lparr>name = Some ''resolver_url'', realtype = ''url'',
        pattern = Some (Rep 1 None Dot)\<rparr>],
      minItems = 3, maxItems = 4\<rparr>"

definition cmd_name_import :: command_info where
  "cmd_name_import =
     \<lparr>items = [
       \<lparr>name = Some ''blockstack_id'', realtype = ''blockstack_id'',
        pattern = Some NAME_PATTERN\<rparr>,
       \<lparr>name = Some ''id_address'', realtype = ''id-address'',
        pattern = Some ID_ADDRESS_PATTERN\<rparr>,
       \<lparr>name = Some ''gaia_url_prefix'', realtype = ''url'',
        pattern = Some (Rep 1 None Dot)\<rparr>,
       \<lparr>name = Some ''reveal_key'', realtype = ''private_key'',
        pattern = Some PRIVATE_KEY_PATTERN_ANY\<rparr>,
       \<lparr>name = Some ''zonefile'', realtype = ''path'',
        pattern = Some (Rep 1 None Dot)\<rparr>,
       \<lparr>name = Some ''zonefile_hash'', realtype = ''zonefile_hash'',
        pattern = Some ZONEFILE_HASH_PATTERN\<rparr>],
      minItems = 4, maxItems = 6\<rparr>"

definition cmd_namespace_preorder :: command_info where
  "cmd_namespace_preorder =
     \<lparr>items = [
       \<lparr>name = Some ''namespace_id'', realtype = ''namespace_id'',
        pattern = Some NAMESPACE_PATTERN\<rparr>,
       \<lparr>name = Some ''reveal_address'', realtype = ''address'',
        pattern = Some ADDRESS_PATTERN\<rparr>,
       \<lparr>name = Some ''payment_key'', realtype = ''private_key'',
        pattern = Some PRIVATE_KEY_PATTERN_ANY\<rparr>],
      minItems = 3, maxItems = 3\<rparr>"

definition cmd_namespace_reveal :: command_info where
  "cmd_namespace_reveal =
     \<lparr>items = [
       \<lparr>name = Some ''namespace_id'', realtype = ''namespace_id'',
        pattern = Some NAMESPACE_PATTERN\<rparr>,
       \<lparr>name = Some ''reveal_address'', realtype = ''address'',
        pattern = Some ADDRESS_PATTERN\<rparr>,
       \<lparr>name = Some ''version'', realtype = ''2-byte-integer'',
        pattern = Some INT_PATTERN\<rparr>,
       \<lparr>name = Some ''lifetime'', realtype = ''4-byte-integer'',
        pattern = Some INT_PATTERN\<rparr>,
       \<lparr>name = Some ''coefficient'', realtype = ''1-byte-integer'',
        pattern = Some INT_PATTERN\<rparr>,
       \<lparr>name = Some ''base'', realtype = ''1-byte-integer'',
        pattern = Some INT_PATTERN\<rparr>,
       \<lparr>name = Some ''price_buckets'', realtype = ''csv-of-16-nybbles'',
        pattern = Some (Seq Bol (Seq (Rep 15 (Some 15) (Seq (Rep 1 (Some 2) (Class digits)) (Lit '','')))
           (Seq (Rep 1 (Some 2) (Class digits)) Eol)))\<rparr>,
       \<lparr>name = Some ''nonalpha_discount'', realtype = ''nybble'',
        pattern = Some INT_PATTERN\<rparr>,
       \<lparr>name = Some ''no_vowel_discount'', realtype = ''nybble'',
        pattern = Some INT_PATTERN\<rparr>,
       \<lparr>name = Some ''payment_key'', realtype = ''private_key'',
        pattern = Some PRIVATE_KEY_PATTERN_ANY\<rparr>],
      minItems = 10, maxItems = 10\<rparr>"

definition cmd_namespace_ready :: command_info where
  "cmd_namespace_ready =
     \<lparr>items = [
       \<lparr>name = Some ''namespace_id'', realtype = ''namespace_id'',
        pattern = Some NAMESPACE_PATTERN\<rparr>,
       \<lparr>name = Some ''reveal_key'', realtype = ''private_key'',
        pattern = Some PRIVATE_KEY_PATTERN_ANY\<rparr>],
      minItems = 2, maxItems = 2\<rparr>"

definition cmd_price :: command_info where
  "cmd_price =
     \<lparr>items = [
       \<lparr>name = Some ''blockstack_id'', realtype = ''blockstack_id'',
        pattern = Some NAME_PATTERN\<rparr>],
      minItems = 1, maxItems = 1\<rparr>"

definition cmd_price_namespace :: command_info where
  "cmd_price_namespace =
     \<lparr>items = [
       \<lparr>name = Some ''namespace_id'', realtype = ''namespace_id'',
        pattern = Some NAMESPACE_PATTERN\<rparr>],
      minItems = 1, maxItems = 1\<rparr>"

definition cmd_profile_sign :: command_info where
  "cmd_profile_sign =
     \<lparr>items = [
       \<lparr>name = Some ''profile'', realtype = ''path'',
        pattern = None\<rparr>,
       \<lparr>name = Some ''owner_key'', realtype = ''private_key'',
        pattern = Some PRIVATE_KEY_PATTERN\<rparr>],
      minItems = 2, maxItems = 2\<rparr>"

definition cmd_profile_store :: command_info where
  "cmd_profile_store =
     \<lparr>items = [
       \<lparr>name = Some ''user_id'', realtype = ''name-or-id-address'',
        pattern = Some (Alt NAME_PATTERN (Alt SUBDOMAIN_PATTERN ID_ADDRESS_PATTERN))\<rparr>,
       \<lparr>name = Some ''profile'', realtype = ''path'',
        pattern = None\<rparr>,
       \<lparr>name = Some ''owner_key'', realtype = ''private_key'',
        pattern = Some PRIVATE_KEY_PATTERN\<rparr>,
       \<lparr>name = Some ''gaia_hub'', realtype = ''url'',
        pattern = None\<rparr>],
      minItems = 4, maxItems = 4\<rparr>"

definition cmd_profile_verify :: command_info where
  "cmd_profile_verify =
     \<lparr>items = [
       \<lparr>name = Some ''profile'', realtype = ''path'',
        pattern = None\<rparr>,
       \<lparr>name = Some ''id_address'', realtype = ''id-address'',
        pattern = Some (Alt ID_ADDRESS_PATTERN PUBLIC_KEY_PATTERN)\<rparr>],
      minItems = 2, maxItems = 2\<rparr>"

definition cmd_renew :: command_info where
  "cmd_renew =
     \<lparr>items = [
       \<lparr>name = Some ''blockstack_id'', realtype = ''on-chain-blockstack_id'',
        pattern = Some NAME_PATTERN\<rparr>,
       \<lparr>name = Some ''owner_key'', realtype = ''private_key'',
        pattern = Some PRIVATE_KEY_PATTERN_ANY\<rparr>,
       \<lparr>name = Some ''payment_key'', realtype = ''private_key'',
        pattern = Some PRIVATE_KEY_PATTERN_ANY\<rparr>,
       \<lparr>name = Some ''new_id_address'', realtype = ''id-address'',
        pattern = Some ID_ADDRESS_PATTERN\<rparr>,
       \<lparr>name = Some ''zonefile'', realtype = ''path'',
        pattern = None\<rparr>,
       \<lparr>name = Some ''zonefile_hash'', realtype = ''zonefile_hash'',
        pattern = Some ZONEFILE_HASH_PATTERN\<rparr>],
      minItems = 3, maxItems = 6\<rparr>"

definition cmd_register :: command_info where
  "cmd_register =
     \<lparr>items = [
       \<lparr>name = Some ''blockstack_id'', realtype = ''on-chain-blockstack_id'',
        pattern = Some NAME_PATTERN\<rparr>,
       \<lparr>name = Some ''owner_key'', realtype = ''private_key'',
        pattern = Some PRIVATE_KEY_PATTERN\<rparr>,
       \<lparr>name = Some ''payment_key'', realtype = ''private_key'',
        pattern = Some PRIVATE_KEY_PATTERN_ANY\<rparr>,
       \<lparr>name = Some ''gaia_hub'', realtype = ''url'',
        pattern = None\<rparr>,
       \<lparr>name = Some ''zonefile'', realtype = ''path'',
        pattern = None\<rparr>],
      minItems = 4, maxItems = 5\<rparr>"

definition cmd_register_addr :: command_info where
  "cmd_register_addr =
     \<lparr>items = [
       \<lparr>name = Some ''blockstack_id'', realtype = ''blockstack_id'',
        pattern = Some NAME_PATTERN\<rparr>,
       \<lparr>name = Some ''id-address'', realtype = ''id-address'',
        pattern = Some ID_ADDRESS_PATTERN\<rparr>,
       \<lparr>name = Some ''payment_key'', realtype = ''private_key'',
        pattern = Some PRIVATE_KEY_PATTERN_ANY\<rparr>,
       \<lparr>name = Some ''gaia_url_prefix'', realtype = ''url'',
        pattern = None\<rparr>,
       \<lparr>name = Some ''zonefile'', realtype = ''path'',
        pattern = None\<rparr>],
      minItems = 4, maxItems = 4\<rparr>"

definition cmd_register_subdomain :: command_info where
  "cmd_register_subdomain =
     \<lparr>items = [
       \<lparr>name = Some ''blockstack_id'', realtype = ''blockstack_id'',
        pattern = Some SUBDOMAIN_PATTERN\<rparr>,
       \<lparr>name = Some ''owner_key'', realtype = ''private_key'',
        pattern = Some PRIVATE_KEY_PATTERN\<rparr>,
       \<lparr>name = Some ''gaia_hub'', realtype = ''url'',
        pattern = None\<rparr>,
       \<lparr>name = Some ''registrar'', realtype = ''url'',
        pattern = None\<rparr>,
       \<lparr>name = Some ''zonefile'', realtype = ''path'',
        pattern = None\<rparr>],
      minItems = 4, maxItems = 5\<rparr>"

definition cmd_revoke :: command_info where
  "cmd_revoke =
     \<lparr>items = [
       \<lparr>name = Some ''blockstack_id'', realtype = ''on-chain-blockstack_id'',
        pattern = Some NAME_PATTERN\<rparr>,
       \<lparr>name = Some ''owner_key'', realtype = ''private_key'',
        pattern = Some PRIVATE_KEY_PATTERN_ANY\<rparr>,
       \<lparr>name = Some ''payment_key'', realtype = ''private_key'',
        pattern = Some PRIVATE_KEY_PATTERN_ANY\<rparr>],
      minItems = 3, maxItems = 3\<rparr>"

definition cmd_send_btc :: command_info where
  "cmd_send_btc =
     \<lparr>items = [
       \<lparr>name = Some ''recipient_address'', realtype = ''address'',
        pattern = Some ADDRESS_PATTERN\<rparr>,
       \<lparr>name = Some ''amount'', realtype = ''satoshis'',
        pattern = Some INT_PATTERN\<rparr>,
       \<lparr>name = Some ''payment_key'', realtype = ''private_key'',
        pattern = Some PRIVATE_KEY_PATTERN_ANY\<rparr>],
      minItems = 3, maxItems = 3\<rparr>"

definition cmd_send_tokens :: command_info where
  "cmd_send_tokens =
     \<lparr>items = [
       \<lparr>name = Some ''address'', realtype = ''address'',
        pattern = Some STACKS_ADDRESS_PATTERN\<rparr>,
       \<lparr>name = Some ''type'', realtype = ''token-type'',
        pattern = Some (Alt (Seq Bol (Seq NAMESPACE_PATTERN Eol)) (Seq Bol (Seq (Lit ''STACKS'') Eol)))\<rparr>,
       \<lparr>name = Some ''amount'', realtype = ''integer'',
        pattern = Some (Seq Bol (Seq (Rep 1 None (Class digits)) Eol))\<rparr>,
       \<lparr>name = Some ''payment_key'', realtype = ''private_key'',
        pattern = Some PRIVATE_KEY_PATTERN_ANY\<rparr>,
       \<lparr>name = Some ''memo'', realtype = ''string'',
        pattern = Some (Seq Bol (Seq (Rep 0 (Some 34) Dot) Eol))\<rparr>],
      minItems = 4, maxItems = 5\<rparr>"

definition cmd_transfer :: command_info where
  "cmd_transfer =
     \<lparr>items = [
       \<lparr>name = Some ''blockstack_id'', realtype = ''on-chain-blockstack_id'',
        pattern = Some NAME_PATTERN\<rparr>,
       \<lparr>name = Some ''new_id_address'', realtype = ''id-address'',
        pattern = Some ID_ADDRESS_PATTERN\<rparr>,
       \<lparr>name = Some ''keep_zonefile'', realtype = ''true-or-false'',
        pattern = Some (Alt (Seq Bol (Seq (Lit ''true'') Eol)) (Seq Bol (Seq (Lit ''false'') Eol)))\<rparr>,
       \<lparr>name = Some ''owner_key'', realtype = ''private_key'',
        pattern = Some PRIVATE_KEY_PATTERN_ANY\<rparr>,
       \<lparr>name = Some ''payment_key'', realtype = ''private_key'',
        pattern = Some PRIVATE_KEY_PATTERN_ANY\<rparr>],
      minItems = 5, maxItems = 5\<rparr>"

definition cmd_tx_preorder :: command_info where
  "cmd_tx_preorder =
     \<lparr>items = [
       \<lparr>name = Some ''blockstack_id'', realtype = ''on-chain-blockstack_id'',
        pattern = Some NAME_PATTERN\<rparr>,
       \<lparr>name = Some ''id_address'', realtype = ''id-address'',
        pattern = Some ID_ADDRESS_PATTERN\<rparr>,
       \<lparr>name = Some ''payment_key'', realtype = ''private_key'',
        pattern = Some PRIVATE_KEY_PATTERN_ANY\<rparr>],
      minItems = 3, maxItems = 3\<rparr>"

definition cmd_tx_register :: command_info where
  "cmd_tx_register =
     \<lparr>items = [
       \<lparr>name = Some ''blockstack_id'', realtype = ''on-chain-blockstack_id'',
        pattern = Some NAME_PATTERN\<rparr>,
       \<lparr>name = Some ''id_address'', realtype = ''id-address'',
        pattern = Some ID_ADDRESS_PATTERN\<rparr>,
       \<lparr>name = Some ''payment_key'', realtype = ''private_key'',
        pattern = Some PRIVATE_KEY_PATTERN_ANY\<rparr>,
       \<lparr>name = Some ''zonefile'', realtype = ''path'',
        pattern = None\<rparr>,
       \<lparr>name = Some ''zonefile_hash'', realtype = ''zoenfile_hash'',
        pattern = Some ZONEFILE_HASH_PATTERN\<rparr>],
      minItems = 3, maxItems = 5\<rparr>"

definition cmd_update :: command_info where
  "cmd_update =
     \<lparr>items = [
       \<lparr>name = Some ''blockstack_id'', realtype = ''on-chain-blockstack_id'',
        pattern = Some NAME_PATTERN\<rparr>,
       \<lparr>name = Some ''zonefile'', realtype = ''path'',
        pattern = None\<rparr>,
       \<lparr>name = Some ''owner_key'', realtype = ''private_key'',
        pattern = Some PRIVATE_KEY_PATTERN_ANY\<rparr>,
       \<lparr>name = Some ''payment_key'', realtype = ''private_key'',
        pattern = Some PRIVATE_KEY_PATTERN_ANY\<rparr>,
       \<lparr>name = Some ''zonefile_hash'', realtype = ''zonefile_hash'',
        pattern = Some ZONEFILE_HASH_PATTERN\<rparr>],
      minItems = 4, maxItems = 5\<rparr>"

definition cmd_whois :: command_info where
  "cmd_whois =
     \<lparr>items = [
       \<lparr>name = Some ''blockstack_id'', realtype = ''blockstack_id'',
        pattern = Some (Alt NAME_PATTERN SUBDOMAIN_PATTERN)\<rparr>],
      minItems = 1, maxItems = 1\<rparr>"

definition cmd_zonefile_push :: command_info where
  "cmd_zonefile_push =
     \<lparr>items = [
       \<lparr>name = Some ''zonefile'', realtype = ''path'',
        pattern = None\<rparr>],
      minItems = 1, maxItems = 1\<rparr>"

definition CLI_ARGS :: registry where
  "CLI_ARGS = [
      (''announce'', cmd_announce), (''authenticator'', cmd_authenticator),
      (''balance'', cmd_balance), (''convert_address'', cmd_convert_address),
      (''decrypt_keychain'', cmd_decrypt_keychain),
      (''encrypt_keychain'', cmd_encrypt_keychain),
      (''gaia_dump_bucket'', cmd_gaia_dump_bucket), (''gaia_getfile'', cmd_gaia_getfile),
      (''gaia_putfile'', cmd_gaia_putfile), (''gaia_listfiles'', cmd_gaia_listfiles),
      (''gaia_restore_bucket'', cmd_gaia_restore_bucket), (''gaia_sethub'', cmd_gaia_sethub),
      (''get_account_history'', cmd_get_account_history),
      (''get_account_at'', cmd_get_account_at), (''get_address'', cmd_get_address),
      (''get_blockchain_record'', cmd_get_blockchain_record),
      (''get_blockchain_history'', cmd_get_blockchain_history),
      (''get_confirmations'', cmd_get_confirmations),
      (''get_namespace_blockchain_record'', cmd_get_namespace_blockchain_record),
      (''get_app_keys'', cmd_get_app_keys), (''get_owner_keys'', cmd_get_owner_keys),
      (''get_payment_key'', cmd_get_payment_key), (''get_zonefile'', cmd_get_zonefile),
      (''help'', cmd_help), (''lookup'', cmd_lookup), (''names'', cmd_names),
      (''make_keychain'', cmd_make_keychain), (''make_zonefile'', cmd_make_zonefile),
      (''name_import'', cmd_name_import), (''namespace_preorder'', cmd_namespace_preorder),
      (''namespace_reveal'', cmd_namespace_reveal), (''namespace_ready'', cmd_namespace_ready),
      (''price'', cmd_price), (''price_namespace'', cmd_price_namespace),
      (''profile_sign'', cmd_profile_sign), (''profile_store'', cmd_profile_store),
      (''profile_verify'', cmd_profile_verify), (''renew'', cmd_renew),
      (''register'', cmd_register), (''register_addr'', cmd_register_addr),
      (''register_subdomain'', cmd_register_subdomain), (''revoke'', cmd_revoke),
      (''send_btc'', cmd_send_btc), (''send_tokens'', cmd_send_tokens),
      (''transfer'', cmd_transfer), (''tx_preorder'', cmd_tx_preorder),
      (''tx_register'', cmd_tx_register), (''update'', cmd_update), (''whois'', cmd_whois),
      (''zonefile_push'', cmd_zonefile_push)]"

section \<open>JavaScript objects used as dictionaries\<close>

datatype js_error = TypeError string | Error string

text \<open>
  \<^verbatim>\<open>obj.hasOwnProperty(key)\<close> on a plain object whose own properties are \<open>obj\<close>. The method
  is inherited, so an own property called \<^verbatim>\<open>hasOwnProperty\<close> (here never a function)
  shadows it and the call throws.
\<close>

definition hasOwnProperty :: "(string \<rightharpoonup> 'a) \<Rightarrow> string \<Rightarrow> js_error + bool" where
  "hasOwnProperty obj key =
     (if obj ''hasOwnProperty'' \<noteq> None then Inl (TypeError ''hasOwnProperty is not a function'')
      else Inr (obj key \<noteq> None))"

text \<open>
  \<^verbatim>\<open>obj[key] = value\<close> for a string value: assigning a string to \<^verbatim>\<open>__proto__\<close> is
  silently ignored and creates no own property.
\<close>

definition set_property :: "(string \<rightharpoonup> string) \<Rightarrow> string \<Rightarrow> string \<Rightarrow> (string \<rightharpoonup> string)" where
  "set_property obj key v = (if key = ''__proto__'' then obj else obj(key \<mapsto> v))"

section \<open>getCommandArgs\<close>

datatype arg_error =
    DuplicateArgument string
  | MissingValue string
  | UnknownArgument string

fun error_message :: "arg_error \<Rightarrow> string" where
  "error_message (DuplicateArgument tok) = ''duplicate argument '' @ tok"
| "error_message (MissingValue tok) = ''no value for argument '' @ tok"
| "error_message (UnknownArgument tok) = ''no such argument '' @ tok"

text \<open>The returned object: \<^verbatim>\<open>{status: false, error}\<close> or \<^verbatim>\<open>{status: true, arguments}\<close>.\<close>

datatype parsed_args = ArgsError arg_error | ArgsOk "string list"

definition startsWith :: "string \<Rightarrow> string \<Rightarrow> bool" where
  "startsWith s p = (take (length p) s = p)"

text \<open>\<^verbatim>\<open>if (argValue)\<close>: \<^verbatim>\<open>null\<close> and the empty string are falsy.\<close>

definition truthy :: "string option \<Rightarrow> bool" where
  "truthy v = (case v of None \<Rightarrow> False | Some s \<Rightarrow> s \<noteq> [])"

text \<open>
  The inner loop over \<^verbatim>\<open>commandProps\<close> (index \<^verbatim>\<open>j\<close>). \<open>tok\<close> is \<^verbatim>\<open>argsList[i]\<close> and
  \<open>rest\<close> the tokens after it, so \<^verbatim>\<open>i + 1 >= argsList.length\<close> is \<open>rest = []\<close> and
  \<^verbatim>\<open>argsList[i+1]\<close> is the head of \<open>rest\<close>.
\<close>

fun findArgValue ::
  "param list \<Rightarrow> string \<Rightarrow> string \<Rightarrow> string list \<Rightarrow> string option \<Rightarrow> arg_error + string option" where
  "findArgValue [] argName tok rest argValue = Inr argValue"
| "findArgValue (p # ps) argName tok rest argValue =
     (case name p of
        None \<Rightarrow> findArgValue ps argName tok rest argValue
      | Some n \<Rightarrow>
          if n = argName then
            (case rest of
               [] \<Rightarrow> Inl (MissingValue tok)
             | v # _ \<Rightarrow> findArgValue ps argName tok rest (Some v))
          else findArgValue ps argName tok rest argValue)"

datatype scan_result =
    ScanThrew js_error
  | ScanFailed arg_error
  | ScanDone "string \<rightharpoonup> string" "string list"

text \<open>
  The keyword scan (index \<^verbatim>\<open>i\<close>) over the tokens still to be read; \<^verbatim>\<open>i += 1\<close> in the
  body together with the loop's \<^verbatim>\<open>i++\<close> skips the value token.
\<close>

fun scanArgs ::
  "param list \<Rightarrow> string list \<Rightarrow> (string \<rightharpoonup> string) \<Rightarrow> string list \<Rightarrow> scan_result" where
  "scanArgs commandProps [] foundArgs orderedArgs = ScanDone foundArgs orderedArgs"
| "scanArgs commandProps (tok # rest) foundArgs orderedArgs =
     (if startsWith tok ''--'' then
        (let argName = drop 2 tok in
         case hasOwnProperty foundArgs argName of
           Inl e \<Rightarrow> ScanThrew e
         | Inr dup \<Rightarrow>
             if dup then ScanFailed (DuplicateArgument tok)
             else
               (case findArgValue commandProps argName tok rest None of
                  Inl err \<Rightarrow> ScanFailed err
                | Inr argValue \<Rightarrow>
                    if truthy argValue then
                      scanArgs commandProps (tl rest)
                        (set_property foundArgs argName (the argValue)) orderedArgs
                    else ScanFailed (UnknownArgument tok)))
      else scanArgs commandProps rest foundArgs (orderedArgs @ [tok]))"

text \<open>
  The merge loop over \<^verbatim>\<open>commandProps\<close>; \<^verbatim>\<open>break\<close> returns what has been merged so far.
\<close>

fun mergeArgs ::
  "param list \<Rightarrow> (string \<rightharpoonup> string) \<Rightarrow> string list \<Rightarrow> nat \<Rightarrow> string list
     \<Rightarrow> js_error + string list" where
  "mergeArgs [] foundArgs orderedArgs orderedArgIndex mergedArgs = Inr mergedArgs"
| "mergeArgs (p # ps) foundArgs orderedArgs orderedArgIndex mergedArgs =
     (case name p of
        None \<Rightarrow>
          if orderedArgIndex \<ge> length orderedArgs then Inr mergedArgs
          else mergeArgs ps foundArgs orderedArgs (orderedArgIndex + 1)
                 (mergedArgs @ [orderedArgs ! orderedArgIndex])
      | Some n \<Rightarrow>
          (case hasOwnProperty foundArgs n of
             Inl e \<Rightarrow> Inl e
           | Inr found \<Rightarrow>
               if \<not> found then
                 if orderedArgIndex \<ge> length orderedArgs then Inr mergedArgs
                 else mergeArgs ps foundArgs orderedArgs (orderedArgIndex + 1)
                        (mergedArgs @ [orderedArgs ! orderedArgIndex])
               else mergeArgs ps foundArgs orderedArgs orderedArgIndex
                      (mergedArgs @ [the (foundArgs n)])))"

text \<open>
  \<^verbatim>\<open>getCommandArgs(command, argsList)\<close>, with the global \<^verbatim>\<open>CLI_ARGS.properties\<close> as the
  explicit argument \<open>CLI\<close>. For a command that is not an own property of the registry,
  \<^verbatim>\<open>CLI_ARGS.properties[command].items\<close> is a read on \<^verbatim>\<open>undefined\<close> (or, for a name
  inherited from \<^verbatim>\<open>Object.prototype\<close>, yields \<^verbatim>\<open>[undefined]\<close>, whose first use throws).
\<close>

definition getCommandArgs :: "registry \<Rightarrow> string \<Rightarrow> string list \<Rightarrow> js_error + parsed_args" where
  "getCommandArgs CLI command argsList =
     (case map_of CLI command of
        None \<Rightarrow> Inl (TypeError ''Cannot read property of undefined'')
      | Some info \<Rightarrow>
          (let commandProps = items info in
           case scanArgs commandProps argsList Map.empty [] of
             ScanThrew e \<Rightarrow> Inl e
           | ScanFailed err \<Rightarrow> Inr (ArgsError err)
           | ScanDone foundArgs orderedArgs \<Rightarrow>
               (case mergeArgs commandProps foundArgs orderedArgs 0 [] of
                  Inl e \<Rightarrow> Inl e
                | Inr mergedArgs \<Rightarrow> Inr (ArgsOk mergedArgs))))"

section \<open>Schema validation\<close>

text \<open>
  \<^verbatim>\<open>ajv.validate(CLI_ARGS, commands)\<close> on the object \<^verbatim>\<open>{commandName: commandArgs}\<close>. The
  validator is a library; what is modelled is the meaning of the JSON-Schema keywords the
  registry uses: \<^verbatim>\<open>properties\<close> with \<^verbatim>\<open>additionalProperties: false\<close>, and for an array
  \<^verbatim>\<open>minItems\<close>, \<^verbatim>\<open>maxItems\<close> and a tuple-form \<^verbatim>\<open>items\<close>, whose \<open>k\<close>-th schema constrains
  the \<open>k\<close>-th element when both exist. Every element is a string, so \<^verbatim>\<open>type: 'string'\<close>
  holds, and \<^verbatim>\<open>pattern\<close> is \<open>regex_test\<close>.
\<close>

definition validate_item :: "param \<Rightarrow> string \<Rightarrow> bool" where
  "validate_item p v = (case pattern p of None \<Rightarrow> True | Some r \<Rightarrow> regex_test r v)"

fun validate_items :: "param list \<Rightarrow> string list \<Rightarrow> bool" where
  "validate_items (p # ps) (v # vs) = (validate_item p v \<and> validate_items ps vs)"
| "validate_items _ _ = True"

definition validate_command :: "command_info \<Rightarrow> string list \<Rightarrow> bool" where
  "validate_command info commandArgs =
     (minItems info \<le> length commandArgs \<and> length commandArgs \<le> maxItems info
      \<and> validate_items (items info) commandArgs)"

definition ajv_validate :: "registry \<Rightarrow> string \<Rightarrow> string list \<Rightarrow> bool" where
  "ajv_validate CLI commandName commandArgs =
     (case map_of CLI commandName of
        None \<Rightarrow> False
      | Some info \<Rightarrow> validate_command info commandArgs)"

section \<open>checkArgs\<close>

text \<open>\<^verbatim>\<open>checkArgsFailType\<close> and \<^verbatim>\<open>checkArgsSuccessType\<close>.\<close>

datatype check_result =
    CheckFail (res_error: string) (res_usage: bool) (res_command: string)
  | CheckSuccess (res_command: string) (res_args: "string list")

definition checkArgs :: "registry \<Rightarrow> string list \<Rightarrow> js_error + check_result" where
  "checkArgs CLI argList =
     (if length argList \<le> 2 then Inr (CheckFail ''No command given'' True '''')
      else
        (let commandName = argList ! 2;
             allCommandArgs = drop 3 argList
         in case hasOwnProperty (map_of CLI) commandName of
              Inl e \<Rightarrow> Inl e
            | Inr known \<Rightarrow>
                if \<not> known then
                  Inr (CheckFail (''Unrecognized command '' @ [CHR 0x27] @ commandName @ [CHR 0x27])
                         True commandName)
                else
                  (case getCommandArgs CLI commandName allCommandArgs of
                     Inl e \<Rightarrow> Inl e
                   | Inr (ArgsError err) \<Rightarrow> Inr (CheckFail (error_message err) True commandName)
                   | Inr (ArgsOk commandArgs) \<Rightarrow>
                       if \<not> ajv_validate CLI commandName commandArgs then
                         Inr (CheckFail ''Invalid command arguments'' True commandName)
                       else Inr (CheckSuccess commandName commandArgs))))"
section \<open>A lower bound on the length of a match\<close>

text \<open>The least number of characters a match of the expression consumes.\<close>

primrec minlen :: "regex \<Rightarrow> nat" where
  "minlen Bol = 0"
| "minlen Eol = 0"
| "minlen (Lit w) = length w"
| "minlen Dot = 1"
| "minlen (Class cs) = 1"
| "minlen (NClass cs) = 1"
| "minlen (Seq a b) = minlen a + minlen b"
| "minlen (Alt a b) = min (minlen a) (minlen b)"
| "minlen (Rep lo hi a) = lo * minlen a"

section \<open>loadConfig\<close>

text \<open>
  JSON values as \<^verbatim>\<open>JSON.parse\<close> returns them. An object is given by its own properties.
\<close>

datatype json =
    JNull
  | JBool bool
  | JNumber int
  | JString string
  | JArray "json list"
  | JObject "(string \<times> json) list"

definition LOG_CONFIG_DEFAULTS :: "(string \<times> json) list" where
  "LOG_CONFIG_DEFAULTS =
     [(''level'', JString ''warn''),
      (''handleExceptions'', JBool True),
      (''timestamp'', JBool True),
      (''stringify'', JBool True),
      (''colorize'', JBool True),
      (''json'', JBool True)]"

definition CONFIG_DEFAULTS :: "(string \<times> json) list" where
  "CONFIG_DEFAULTS =
     [(''blockstackAPIUrl'', JString ''https://core.blockstack.org''),
      (''blockstackNodeUrl'', JString ''https://node.blockstack.org:6263''),
      (''broadcastServiceUrl'', JString ''https://broadcast.blockstack.org''),
      (''utxoServiceUrl'', JString ''https://blockchain.info''),
      (''logConfig'', JObject LOG_CONFIG_DEFAULTS)]"

definition CONFIG_REGTEST_DEFAULTS :: "(string \<times> json) list" where
  "CONFIG_REGTEST_DEFAULTS =
     [(''blockstackAPIUrl'', JString ''http://localhost:16268''),
      (''blockstackNodeUrl'', JString ''http://localhost:16264''),
      (''broadcastServiceUrl'', JString ''http://localhost:16269''),
      (''utxoServiceUrl'', JString ''http://localhost:18332''),
      (''logConfig'', JObject LOG_CONFIG_DEFAULTS)]"

definition PUBLIC_TESTNET_HOST :: string where
  "PUBLIC_TESTNET_HOST = ''testnet.blockstack.org''"

text \<open>
  \<^verbatim>\<open>Object.assign(target, source)\<close> on own properties: every own enumerable property of the
  source is assigned, in order. An assignment to \<^verbatim>\<open>__proto__\<close> creates no own property
  (prototypes are outside this model).
\<close>

definition assign_property :: "(string \<rightharpoonup> json) \<Rightarrow> string \<times> json \<Rightarrow> (string \<rightharpoonup> json)" where
  "assign_property obj kv = (if fst kv = ''__proto__'' then obj else obj(fst kv \<mapsto> snd kv))"

definition Object_assign :: "(string \<rightharpoonup> json) \<Rightarrow> (string \<times> json) list \<Rightarrow> (string \<rightharpoonup> json)" where
  "Object_assign target source = foldl assign_property target source"

text \<open>\<^verbatim>\<open>Object.assign({}, LOG_CONFIG_DEFAULTS, { level: 'debug' })\<close> has the keys of the defaults.\<close>

definition CONFIG_TESTNET_DEFAULTS :: "(string \<times> json) list" where
  "CONFIG_TESTNET_DEFAULTS =
     [(''blockstackAPIUrl'', JString (''http://'' @ PUBLIC_TESTNET_HOST @ '':16268'')),
      (''blockstackNodeUrl'', JString (''http://'' @ PUBLIC_TESTNET_HOST @ '':16264'')),
      (''broadcastServiceUrl'', JString (''http://'' @ PUBLIC_TESTNET_HOST @ '':16269'')),
      (''utxoServiceUrl'', JString (''http://'' @ PUBLIC_TESTNET_HOST @ '':18332'')),
      (''logConfig'',
         JObject (map (\<lambda>(k, v). (k, if k = ''level'' then JString ''debug'' else v))
                    LOG_CONFIG_DEFAULTS))]"

text \<open>The decimal form of an array index, as a property key.\<close>

function index_key :: "nat \<Rightarrow> string" where
  "index_key n =
     (if n < 10 then [char_of (48 + n)]
      else index_key (n div 10) @ [char_of (48 + n mod 10)])"
  by pat_completeness auto
termination
  by (relation "measure id") auto

text \<open>
  The own enumerable properties \<^verbatim>\<open>Object.assign\<close> copies from a parsed value: those of an
  object; the elements of an array and the characters of a string under their indices;
  none for \<^verbatim>\<open>null\<close>, a boolean or a number.
\<close>

fun own_entries :: "json \<Rightarrow> (string \<times> json) list" where
  "own_entries (JObject kvs) = kvs"
| "own_entries (JArray xs) = map (\<lambda>i. (index_key i, xs ! i)) [0 ..< length xs]"
| "own_entries (JString s) = map (\<lambda>i. (index_key i, JString [s ! i])) [0 ..< length s]"
| "own_entries _ = []"

text \<open>
  \<^verbatim>\<open>loadConfig(configFile, networkType)\<close>. The file system and the JSON parser are outside
  the repository: \<open>readFileSync path\<close> is the text of \<^verbatim>\<open>fs.readFileSync(path).toString()\<close>
  or the error it throws, \<open>JSON_parse text\<close> the value of \<^verbatim>\<open>JSON.parse(text)\<close> or the error
  it throws. The \<^verbatim>\<open>try\<close> block swallows both errors.
\<close>

definition loadConfig ::
  "(string \<Rightarrow> js_error + string) \<Rightarrow> (string \<Rightarrow> js_error + json) \<Rightarrow> string \<Rightarrow> string
     \<Rightarrow> js_error + (string \<rightharpoonup> json)" where
  "loadConfig readFileSync JSON_parse configFile networkType =
     (if networkType \<noteq> ''mainnet'' \<and> networkType \<noteq> ''testnet'' \<and> networkType \<noteq> ''regtest''
      then Inl (Error ''Unregognized network'')
      else
        (let configRet =
               (if networkType = ''mainnet'' then Object_assign Map.empty CONFIG_DEFAULTS
                else if networkType = ''regtest'' then Object_assign Map.empty CONFIG_REGTEST_DEFAULTS
                else Object_assign Map.empty CONFIG_TESTNET_DEFAULTS)
         in case readFileSync configFile of
              Inl e \<Rightarrow> Inr configRet
            | Inr text \<Rightarrow>
                (case JSON_parse text of
                   Inl e \<Rightarrow> Inr configRet
                 | Inr configData \<Rightarrow> Inr (Object_assign configRet (own_entries configData)))))"

section \<open>formatHelpString\<close>

text \<open>
  \<^verbatim>\<open>s.split(c)\<close> for a one-character separator: the pieces between the separators, so that
  the result is never empty and \<^verbatim>\<open>"".split(c)\<close> is \<^verbatim>\<open>[""]\<close> (the \<open>[]\<close> branch below is never
  taken).
\<close>

fun split_on :: "char \<Rightarrow> string \<Rightarrow> string list" where
  "split_on c [] = [[]]"
| "split_on c (x # xs) =
     (if x = c then [] # split_on c xs
      else (case split_on c xs of
              [] \<Rightarrow> [[x]]
            | piece # pieces \<Rightarrow> (x # piece) # pieces))"







section \<open>getCLIOpts\<close>

text \<open>
  A value of the options table: \<^verbatim>\<open>null\<close>, \<^verbatim>\<open>undefined\<close>, a boolean, a string, or the list
  stored under the key \<^verbatim>\<open>_\<close>.
\<close>

datatype opt_value =
    OptNull
  | OptUndefined
  | OptBool bool
  | OptString string
  | OptList "string list"

text \<open>
  The table is an object whose keys are single characters; it is kept as the list of its
  properties in insertion order. \<^verbatim>\<open>optsTable[key] = value\<close> replaces the value of a key that
  exists and adds a new key at the end.
\<close>

type_synonym opts_table = "(char \<times> opt_value) list"









section \<open>What getCLIOpts keeps: auxiliary notions\<close>

text \<open>
  \<open>flag_kind tbl tok\<close>: when \<open>tok\<close> is \<^verbatim>\<open>-c\<close> for a key \<open>c\<close> of the table, the value the table
  has for \<open>c\<close> (\<open>OptNull\<close> for a flag that takes a value, \<open>OptBool False\<close> for a switch,
  in the table built from the flag specification).
\<close>

definition flag_kind :: "opts_table \<Rightarrow> string \<Rightarrow> opt_value option" where
  "flag_kind tbl tok =
     (case tok of
        [d, c] \<Rightarrow> if d = CHR ''-'' then map_of tbl c else None
      | _ \<Rightarrow> None)"






section \<open>Facts about the registry and the keyword scan\<close>

lemmas cmd_defs =
  cmd_announce_def cmd_authenticator_def cmd_balance_def cmd_convert_address_def
  cmd_decrypt_keychain_def cmd_encrypt_keychain_def cmd_gaia_dump_bucket_def
  cmd_gaia_getfile_def cmd_gaia_putfile_def cmd_gaia_listfiles_def cmd_gaia_restore_bucket_def
  cmd_gaia_sethub_def cmd_get_account_history_def cmd_get_account_at_def cmd_get_address_def
  cmd_get_blockchain_record_def cmd_get_blockchain_history_def cmd_get_confirmations_def
  cmd_get_namespace_blockchain_record_def cmd_get_app_keys_def cmd_get_owner_keys_def
  cmd_get_payment_key_def cmd_get_zonefile_def cmd_help_def cmd_lookup_def cmd_names_def
  cmd_make_keychain_def cmd_make_zonefile_def cmd_name_import_def cmd_namespace_preorder_def
  cmd_namespace_reveal_def cmd_namespace_ready_def cmd_price_def cmd_price_namespace_def
  cmd_profile_sign_def cmd_profile_store_def cmd_profile_verify_def cmd_renew_def
  cmd_register_def cmd_register_addr_def cmd_register_subdomain_def cmd_revoke_def
  cmd_send_btc_def cmd_send_tokens_def cmd_transfer_def cmd_tx_preorder_def
  cmd_tx_register_def cmd_update_def cmd_whois_def cmd_zonefile_push_def

lemma CLI_ARGS_no_shadow: "map_of CLI_ARGS ''hasOwnProperty'' = None"
  by (simp add: CLI_ARGS_def)

lemma CLI_ARGS_names_all:
  "list_all (\<lambda>(c, info). list_all (\<lambda>p. name p \<noteq> Some ''hasOwnProperty'') (items info)) CLI_ARGS"
  by (simp add: CLI_ARGS_def cmd_defs)

lemma CLI_ARGS_names:
  assumes "map_of CLI_ARGS c = Some info"
  shows "Some ''hasOwnProperty'' \<notin> set (map name (items info))"
proof -
  from assms have mem: "(c, info) \<in> set CLI_ARGS" by (rule map_of_SomeD)
  have "\<forall>x\<in>set CLI_ARGS. case x of (c, info) \<Rightarrow>
          \<forall>p\<in>set (items info). name p \<noteq> Some ''hasOwnProperty''"
    using CLI_ARGS_names_all by (simp add: list_all_iff)
  with mem have "\<forall>p\<in>set (items info). name p \<noteq> Some ''hasOwnProperty''"
    by fastforce
  then show ?thesis by force
qed

lemma findArgValue_eq:
  "findArgValue ps a tok rest av =
     (if Some a \<in> set (map name ps)
      then (case rest of [] \<Rightarrow> Inl (MissingValue tok) | v # _ \<Rightarrow> Inr (Some v))
      else Inr av)"
proof (induction ps arbitrary: av)
  case Nil
  then show ?case by simp
next
  case (Cons p ps)
  show ?case
  proof (cases "name p")
    case None
    then show ?thesis using Cons.IH by simp
  next
    case (Some n)
    then show ?thesis using Cons.IH by (cases rest) auto
  qed
qed

lemma hasOwnProperty_ok:
  "obj ''hasOwnProperty'' = None \<Longrightarrow> hasOwnProperty obj key = Inr (obj key \<noteq> None)"
  by (simp add: hasOwnProperty_def)

lemma scanArgs_keyword:
  assumes "startsWith tok ''--''" and "f ''hasOwnProperty'' = None"
  shows "scanArgs ps (tok # rest) f ord =
     (if f (drop 2 tok) \<noteq> None then ScanFailed (DuplicateArgument tok)
      else if Some (drop 2 tok) \<notin> set (map name ps) then ScanFailed (UnknownArgument tok)
      else (case rest of
              [] \<Rightarrow> ScanFailed (MissingValue tok)
            | v # rest' \<Rightarrow>
                if v = [] then ScanFailed (UnknownArgument tok)
                else scanArgs ps rest' (set_property f (drop 2 tok) v) ord))"
  using assms
  by (cases rest) (simp_all add: hasOwnProperty_ok findArgValue_eq truthy_def Let_def)

lemma scanArgs_positional:
  "\<not> startsWith tok ''--'' \<Longrightarrow> scanArgs ps (tok # rest) f ord = scanArgs ps rest f (ord @ [tok])"
  by simp


declare scanArgs.simps(2) [simp del]

lemma set_property_other:
  "k \<noteq> ''hasOwnProperty'' \<Longrightarrow> f ''hasOwnProperty'' = None
     \<Longrightarrow> set_property f k v ''hasOwnProperty'' = None"
  by (simp add: set_property_def)

text \<open>What a completed scan has captured.\<close>

lemma scanArgs_found:
  assumes "Some ''hasOwnProperty'' \<notin> set (map name ps)" and "f ''hasOwnProperty'' = None"
    and "scanArgs ps toks f ord = ScanDone f' ord'"
  shows "f' ''hasOwnProperty'' = None
       \<and> (\<forall>n v. f' n = Some v \<longrightarrow> f n = Some v \<or> (Some n \<in> set (map name ps) \<and> v \<noteq> []))
       \<and> (\<forall>n v. f n = Some v \<longrightarrow> f' n = Some v)"
  using assms
proof (induction ps toks f ord rule: scanArgs.induct)
  case (1 commandProps foundArgs orderedArgs)
  then show ?case by simp
next
  case (2 commandProps tok rest foundArgs orderedArgs)
  show ?case
  proof (cases "startsWith tok ''--''")
    case False
    with 2 show ?thesis by (simp add: scanArgs_positional)
  next
    case True
    let ?a = "drop 2 tok"
    from "2.prems"(3) True "2.prems"(2)
    have nodup: "foundArgs ?a = None" and decl: "Some ?a \<in> set (map name commandProps)"
      by (auto simp: scanArgs_keyword split: if_splits)
    from "2.prems"(3) True "2.prems"(2) nodup decl obtain v rest' where
      rest: "rest = v # rest'" and v: "v \<noteq> []"
      and sc: "scanArgs commandProps rest' (set_property foundArgs ?a v) orderedArgs = ScanDone f' ord'"
      by (auto simp: scanArgs_keyword split: if_splits list.splits)
    from decl "2.prems"(1) have ne: "?a \<noteq> ''hasOwnProperty''" by auto
    have h: "hasOwnProperty foundArgs ?a = Inr False"
      using "2.prems"(2) nodup by (simp add: hasOwnProperty_ok)
    have fv: "findArgValue commandProps ?a tok rest None = Inr (Some v)"
      using decl rest by (simp add: findArgValue_eq)
    have IH: "f' ''hasOwnProperty'' = None
       \<and> (\<forall>n w. f' n = Some w \<longrightarrow> set_property foundArgs ?a v n = Some w
              \<or> (Some n \<in> set (map name commandProps) \<and> w \<noteq> []))
       \<and> (\<forall>n w. set_property foundArgs ?a v n = Some w \<longrightarrow> f' n = Some w)"
      using "2.IH"(1)[OF True refl h _ fv] "2.prems"(1) sc rest v
        set_property_other[of "drop 2 tok" foundArgs v] ne "2.prems"(2)
      by (simp add: truthy_def)
    show ?thesis
    proof (intro conjI allI impI)
      show "f' ''hasOwnProperty'' = None" using IH by simp
    next
      fix n w assume "f' n = Some w"
      with IH have "set_property foundArgs ?a v n = Some w
              \<or> (Some n \<in> set (map name commandProps) \<and> w \<noteq> [])" by blast
      then show "foundArgs n = Some w \<or> (Some n \<in> set (map name commandProps) \<and> w \<noteq> [])"
        using decl v by (auto simp: set_property_def split: if_splits)
    next
      fix n w assume "foundArgs n = Some w"
      with nodup have "n \<noteq> ?a" by auto
      with \<open>foundArgs n = Some w\<close> have "set_property foundArgs ?a v n = Some w"
        by (simp add: set_property_def)
      with IH show "f' n = Some w" by blast
    qed
  qed
qed

lemma scanArgs_no_throw:
  assumes "Some ''hasOwnProperty'' \<notin> set (map name ps)" and "f ''hasOwnProperty'' = None"
  shows "scanArgs ps toks f ord \<noteq> ScanThrew e"
  using assms
proof (induction ps toks f ord rule: scanArgs.induct)
  case (1 commandProps foundArgs orderedArgs)
  then show ?case by simp
next
  case (2 commandProps tok rest foundArgs orderedArgs)
  show ?case
  proof (cases "startsWith tok ''--''")
    case False
    with 2 show ?thesis by (simp add: scanArgs_positional)
  next
    case True
    let ?a = "drop 2 tok"
    show ?thesis
    proof (cases "foundArgs ?a = None \<and> Some ?a \<in> set (map name commandProps)
                   \<and> rest \<noteq> [] \<and> hd rest \<noteq> []")
      case False
      then show ?thesis using True "2.prems"(2)
        by (auto simp: scanArgs_keyword split: list.splits)
    next
      case c: True
      then obtain v rest' where rest: "rest = v # rest'" and v: "v \<noteq> []"
        by (cases rest) auto
      from c "2.prems"(1) have ne: "?a \<noteq> ''hasOwnProperty''" by auto
      have h: "hasOwnProperty foundArgs ?a = Inr False"
        using "2.prems"(2) c by (simp add: hasOwnProperty_ok)
      have fv: "findArgValue commandProps ?a tok rest None = Inr (Some v)"
        using c rest by (simp add: findArgValue_eq)
      have "scanArgs commandProps (tl rest) (set_property foundArgs ?a (the (Some v))) orderedArgs
              \<noteq> ScanThrew e"
        using "2.IH"(1)[OF True refl h _ fv] "2.prems"(1) v
          set_property_other[of "drop 2 tok" foundArgs v] ne "2.prems"(2)
        by (simp add: truthy_def)
      then show ?thesis using True "2.prems"(2) c rest v
        by (simp add: scanArgs_keyword)
    qed
  qed
qed

lemma mergeArgs_no_throw:
  assumes "f ''hasOwnProperty'' = None"
  shows "\<exists>merged'. mergeArgs ps f ord k merged = Inr merged'"
  using assms
  by (induction ps f ord k merged rule: mergeArgs.induct)
     (auto simp: hasOwnProperty_ok split: option.splits)

lemma findArgValue_append:
  "rest \<noteq> [] \<Longrightarrow> findArgValue ps a tok (rest @ suf) av = findArgValue ps a tok rest av"
  by (cases rest) (simp_all add: findArgValue_eq)

text \<open>A scan that completes on a prefix continues on what follows from the state it reached.\<close>

lemma scanArgs_append:
  assumes "scanArgs ps pre f ord = ScanDone f' ord'"
  shows "scanArgs ps (pre @ suf) f ord = scanArgs ps suf f' ord'"
  using assms
proof (induction ps pre f ord rule: scanArgs.induct)
  case (1 commandProps foundArgs orderedArgs)
  then show ?case by simp
next
  case (2 commandProps tok rest foundArgs orderedArgs)
  show ?case
  proof (cases "startsWith tok ''--''")
    case False
    with 2 show ?thesis by (simp add: scanArgs_positional)
  next
    case True
    let ?a = "drop 2 tok"
    from "2.prems" True obtain dup where h: "hasOwnProperty foundArgs ?a = Inr dup"
      by (auto simp: scanArgs.simps(2) Let_def split: sum.splits)
    from "2.prems" True h have nd: "\<not> dup"
      by (auto simp: scanArgs.simps(2) Let_def split: if_splits)
    from "2.prems" True h nd obtain av where
      fv: "findArgValue commandProps ?a tok rest None = Inr av"
      by (auto simp: scanArgs.simps(2) Let_def split: sum.splits)
    from "2.prems" True h nd fv have tr: "truthy av"
      by (auto simp: scanArgs.simps(2) Let_def split: if_splits)
    from "2.prems" True h nd fv tr have
      sc: "scanArgs commandProps (tl rest) (set_property foundArgs ?a (the av)) orderedArgs
             = ScanDone f' ord'"
      by (simp add: scanArgs.simps(2) Let_def)
    from fv tr have rne: "rest \<noteq> []"
      by (auto simp: findArgValue_eq truthy_def split: if_splits list.splits)
    have fv': "findArgValue commandProps ?a tok (rest @ suf) None = Inr av"
      using fv rne by (simp add: findArgValue_append)
    have "scanArgs commandProps (tl rest @ suf) (set_property foundArgs ?a (the av)) orderedArgs
            = scanArgs commandProps suf f' ord'"
      using "2.IH"(1)[OF True refl h _ fv tr sc] nd by simp
    then show ?thesis using True h nd fv' tr rne
      by (simp add: scanArgs.simps(2) Let_def)
  qed
qed

section \<open>Facts about the matcher\<close>

lemma iter_Nil [simp]: "iter f k [] = []"
  by (induction k) simp_all

lemma set_iter: "set (iter f k ps) = (\<Union>p\<in>set ps. set (iter f k [p]))"
proof (induction k arbitrary: ps)
  case 0
  show ?case by simp
next
  case (Suc k)
  have "set (iter f (Suc k) ps) = set (iter f k (remdups (concat (map f ps))))"
    by simp
  also have "\<dots> = (\<Union>q\<in>set (remdups (concat (map f ps))). set (iter f k [q]))"
    by (rule Suc.IH)
  also have "\<dots> = (\<Union>p\<in>set ps. \<Union>q\<in>set (remdups (f p)). set (iter f k [q]))"
    by auto
  also have "\<dots> = (\<Union>p\<in>set ps. set (iter f k (remdups (f p))))"
    using Suc.IH[of "remdups (f p)" for p] by simp
  also have "\<dots> = (\<Union>p\<in>set ps. set (iter f (Suc k) [p]))"
    by simp
  finally show ?case .
qed

lemma set_iter_Suc: "set (iter f (Suc k) [p]) = (\<Union>q\<in>set (f p). set (iter f k [q]))"
proof -
  have "set (iter f (Suc k) [p]) = set (iter f k (remdups (f p)))" by simp
  also have "\<dots> = (\<Union>q\<in>set (remdups (f p)). set (iter f k [q]))" by (rule set_iter)
  finally show ?thesis by simp
qed

lemma iter_lower:
  assumes step: "\<And>p q. q \<in> set (f p) \<Longrightarrow> p + d \<le> q"
  shows "j \<in> set (iter f k [p]) \<Longrightarrow> p + k * d \<le> j"
proof (induction k arbitrary: p)
  case 0
  then show ?case by simp
next
  case (Suc k)
  from Suc.prems obtain q where q: "q \<in> set (f p)" and j: "j \<in> set (iter f k [q])"
    unfolding set_iter_Suc by blast
  from Suc.IH[OF j] step[OF q] show ?case by simp
qed

lemma iter_upper:
  assumes step: "\<And>p q. p \<le> n \<Longrightarrow> q \<in> set (f p) \<Longrightarrow> q \<le> n"
  shows "p \<le> n \<Longrightarrow> j \<in> set (iter f k [p]) \<Longrightarrow> j \<le> n"
proof (induction k arbitrary: p)
  case 0
  then show ?case by simp
next
  case (Suc k)
  from Suc.prems(2) obtain q where q: "q \<in> set (f p)" and j: "j \<in> set (iter f k [q])"
    unfolding set_iter_Suc by blast
  from step[OF Suc.prems(1) q] j show ?case by (rule Suc.IH)
qed

lemma set_repeat:
  "set (repeat f lo hi n i) =
     (\<Union>k\<in>{lo ..< Suc (case hi of Some h \<Rightarrow> h | None \<Rightarrow> lo + n)}. set (iter f k [i]))"
  by (simp add: repeat_def del: upt_Suc)

lemma rmatch_lower: "j \<in> set (rmatch r s i) \<Longrightarrow> i + minlen r \<le> j"
proof (induction r arbitrary: i j)
  case (Seq a b)
  then show ?case by fastforce
next
  case (Alt a b)
  then show ?case by fastforce
next
  case (Rep lo hi a)
  from Rep.prems obtain k where k: "lo \<le> k" and j: "j \<in> set (iter (rmatch a s) k [i])"
    by (auto simp: set_repeat)
  from iter_lower[of "rmatch a s" "minlen a", OF Rep.IH j] have "i + k * minlen a \<le> j" .
  moreover from k have "lo * minlen a \<le> k * minlen a" by (rule mult_le_mono1)
  ultimately have "i + lo * minlen a \<le> j" by linarith
  then show ?case by simp
qed (auto split: if_splits)

lemma rmatch_upper: "i \<le> length s \<Longrightarrow> j \<in> set (rmatch r s i) \<Longrightarrow> j \<le> length s"
proof (induction r arbitrary: i j)
  case (Lit w)
  then have eq: "take (length w) (drop i s) = w" and j: "j = i + length w"
    by (auto split: if_splits)
  have "length (take (length w) (drop i s)) = min (length w) (length s - i)"
    by simp
  with eq have "length w \<le> length s - i" by simp
  with Lit j show ?case by simp
next
  case (Seq a b)
  from Seq.prems(2) obtain m where m: "m \<in> set (rmatch a s i)" and j: "j \<in> set (rmatch b s m)"
    by auto
  from Seq.IH(1)[OF Seq.prems(1) m] have "m \<le> length s" .
  from Seq.IH(2)[OF this j] show ?case .
next
  case (Alt a b)
  from Alt.prems(2) have "j \<in> set (rmatch a s i) \<or> j \<in> set (rmatch b s i)" by simp
  with Alt.IH Alt.prems(1) show ?case by blast
next
  case (Rep lo hi a)
  from Rep.prems(2) obtain k where j: "j \<in> set (iter (rmatch a s) k [i])"
    by (auto simp: set_repeat)
  from iter_upper[of "length s" "rmatch a s", OF Rep.IH Rep.prems(1) j] show ?case .
qed (auto split: if_splits)

lemma regex_test_iff:
  "regex_test r s \<longleftrightarrow> (\<exists>i\<le>length s. \<exists>j. j \<in> set (rmatch r s i))"
proof -
  have "rmatch r s i \<noteq> [] \<longleftrightarrow> (\<exists>j. j \<in> set (rmatch r s i))" for i
    by (cases "rmatch r s i") auto
  then show ?thesis
    by (auto simp: regex_test_def list_ex_iff less_Suc_eq_le simp del: upt_Suc)
qed

lemma regex_test_too_short: "length s < minlen r \<Longrightarrow> \<not> regex_test r s"
proof
  assume short: "length s < minlen r" and "regex_test r s"
  then obtain i j where i: "i \<le> length s" and j: "j \<in> set (rmatch r s i)"
    unfolding regex_test_iff by blast
  from rmatch_lower[OF j] rmatch_upper[OF i j] short show False by simp
qed

lemma iter_single_step:
  assumes f: "\<And>a. f a = (if a < n \<and> P a then [Suc a] else [])"
  shows "i \<le> n \<Longrightarrow>
     iter f k [i] = (if i + k \<le> n \<and> (\<forall>j<k. P (i + j)) then [i + k] else [])"
proof (induction k arbitrary: i)
  case 0
  then show ?case by simp
next
  case (Suc k)
  have unfold: "iter f (Suc k) [i] = iter f k (remdups (f i))" by simp
  show ?case
  proof (cases "i < n \<and> P i")
    case True
    then have "f i = [Suc i]" by (simp add: f)
    with unfold have "iter f (Suc k) [i] = iter f k [Suc i]" by simp
    also have "\<dots> = (if Suc i + k \<le> n \<and> (\<forall>j<k. P (Suc i + j)) then [Suc i + k] else [])"
      using True by (intro Suc.IH) simp
    also have "\<dots> = (if i + Suc k \<le> n \<and> (\<forall>j<Suc k. P (i + j)) then [i + Suc k] else [])"
      using True by (simp add: All_less_Suc2)
    finally show ?thesis .
  next
    case False
    then have "f i = []" by (simp add: f)
    with unfold have "iter f (Suc k) [i] = []" by simp
    moreover from False have "\<not> (i + Suc k \<le> n \<and> (\<forall>j<Suc k. P (i + j)))"
      by (auto simp: All_less_Suc2)
    ultimately show ?thesis by simp
  qed
qed

lemma iter_Class:
  assumes "i \<le> length s"
  shows "iter (rmatch (Class cs) s) k [i] =
     (if i + k \<le> length s \<and> (\<forall>j<k. s ! (i + j) \<in> set cs) then [i + k] else [])"
proof -
  have f: "\<And>a. rmatch (Class cs) s a = (if a < length s \<and> s ! a \<in> set cs then [Suc a] else [])"
    by simp
  show ?thesis
    by (rule iter_single_step[of "rmatch (Class cs) s" "length s" "\<lambda>a. s ! a \<in> set cs", OF f assms])
qed

lemma regex_test_anchored:
  "regex_test (Seq Bol (Seq r Eol)) s \<longleftrightarrow> length s \<in> set (rmatch r s 0)"
proof -
  have "set (rmatch (Seq Bol (Seq r Eol)) s i) = (if i = 0 \<and> length s \<in> set (rmatch r s 0) then {length s} else {})" for i
    by (auto split: if_splits)
  then show ?thesis by (auto simp: regex_test_iff)
qed

text \<open>An anchored run of \<open>lo\<close> to \<open>hi\<close> characters of one class.\<close>

lemma anchored_class_run:
  "regex_test (Seq Bol (Seq (Rep lo (Some hi) (Class cs)) Eol)) s
     \<longleftrightarrow> lo \<le> length s \<and> length s \<le> hi \<and> set s \<subseteq> set cs"
proof -
  have "length s \<in> set (iter (rmatch (Class cs) s) k [0])
          \<longleftrightarrow> k = length s \<and> (\<forall>j<length s. s ! j \<in> set cs)" for k
    by (auto simp: iter_Class)
  then have "regex_test (Seq Bol (Seq (Rep lo (Some hi) (Class cs)) Eol)) s
     \<longleftrightarrow> lo \<le> length s \<and> length s \<le> hi \<and> (\<forall>j<length s. s ! j \<in> set cs)"
    by (auto simp: regex_test_anchored set_repeat)
  also have "(\<forall>j<length s. s ! j \<in> set cs) \<longleftrightarrow> set s \<subseteq> set cs"
    using all_set_conv_all_nth[of s "\<lambda>c. c \<in> set cs"] by auto
  finally show ?thesis .
qed

lemma PRIVATE_KEY_PATTERN_iff:
  "regex_test PRIVATE_KEY_PATTERN v \<longleftrightarrow> 64 \<le> length v \<and> length v \<le> 66 \<and> set v \<subseteq> set hex_chars"
  unfolding PRIVATE_KEY_PATTERN_def by (rule anchored_class_run)

lemma PRIVATE_KEY_UNCOMPRESSED_PATTERN_iff:
  "regex_test PRIVATE_KEY_UNCOMPRESSED_PATTERN v \<longleftrightarrow> length v = 64 \<and> set v \<subseteq> set hex_chars"
  unfolding PRIVATE_KEY_UNCOMPRESSED_PATTERN_def by (auto simp: anchored_class_run)

lemma regex_test_Alt: "regex_test (Alt a b) s \<longleftrightarrow> regex_test a s \<or> regex_test b s"
  by (auto simp: regex_test_iff)

lemma minlen_MULTISIG: "minlen PRIVATE_KEY_MULTISIG_PATTERN = 66"
  by (simp add: PRIVATE_KEY_MULTISIG_PATTERN_def)

lemma minlen_SEGWIT: "minlen PRIVATE_KEY_SEGWIT_P2SH_PATTERN = 78"
  by (simp add: PRIVATE_KEY_SEGWIT_P2SH_PATTERN_def)

lemma PRIVATE_KEY_PATTERN_ANY_short:
  assumes "length v \<le> 65"
  shows "regex_test PRIVATE_KEY_PATTERN_ANY v \<longleftrightarrow> length v \<in> {64, 65} \<and> set v \<subseteq> set hex_chars"
proof -
  have "\<not> regex_test PRIVATE_KEY_MULTISIG_PATTERN v"
    using assms by (intro regex_test_too_short) (simp add: minlen_MULTISIG)
  moreover have "\<not> regex_test PRIVATE_KEY_SEGWIT_P2SH_PATTERN v"
    using assms by (intro regex_test_too_short) (simp add: minlen_SEGWIT)
  ultimately show ?thesis using assms
    by (auto simp: PRIVATE_KEY_PATTERN_ANY_def regex_test_Alt PRIVATE_KEY_PATTERN_iff)
qed

section \<open>Facts about the option scan\<close>






lemma flag_kind_token [simp]: "flag_kind tbl [CHR ''-'', c] = map_of tbl c"
  by (simp add: flag_kind_def)


lemma flag_kind_empty [simp]: "flag_kind tbl '''' = None"
  by (simp add: flag_kind_def)























section \<open>Argument resolution: the claims\<close>

lemma getCommandArgs_scan_failed:
  assumes "map_of CLI_ARGS command = Some info"
    and "scanArgs (items info) toks Map.empty [] = ScanFailed err"
  shows "getCommandArgs CLI_ARGS command toks = Inr (ArgsError err)"
  using assms by (simp add: getCommandArgs_def)

lemma whois_lookup: "map_of CLI_ARGS ''whois'' = Some cmd_whois"
  by (simp add: CLI_ARGS_def)


lemma get_address_lookup: "map_of CLI_ARGS ''get_address'' = Some cmd_get_address"
  by (simp add: CLI_ARGS_def)

text \<open>
  C1. For a command whose schema declares the parameters \<open>x\<close>, \<open>y\<close>, \<open>z\<close> in that order,
  the tokens \<^verbatim>\<open>a --y b c\<close> resolve to \<^verbatim>\<open>[a, b, c]\<close>. A parameter that has a keyword
  value takes it and leaves the positional index where it is: in \<^verbatim>\<open>a --x k b\<close> the
  parameter \<open>x\<close> gets \<open>k\<close>, and \<open>a\<close>, which \<open>x\<close> would otherwise have taken, goes to \<open>y\<close>.
  The last conjunct is that step of the merge loop for any parameter, state and index.
\<close>

theorem getCommandArgs_keyword_fills_slot:
  assumes "map_of CLI command = Some info"
    and "map name (items info) = [Some ''x'', Some ''y'', Some ''z'']"
  shows "getCommandArgs CLI command [''a'', ''--y'', ''b'', ''c''] = Inr (ArgsOk [''a'', ''b'', ''c''])
       \<and> getCommandArgs CLI command [''a'', ''--x'', ''k'', ''b''] = Inr (ArgsOk [''k'', ''a'', ''b''])
       \<and> (\<forall>p ps foundArgs orderedArgs idx merged n v.
             name p = Some n \<and> foundArgs n = Some v \<and> foundArgs ''hasOwnProperty'' = None \<longrightarrow>
             mergeArgs (p # ps) foundArgs orderedArgs idx merged
               = mergeArgs ps foundArgs orderedArgs idx (merged @ [v]))"
proof -
  from assms(2) obtain px py pz where
    its: "items info = [px, py, pz]" and nx: "name px = Some ''x''"
    and ny: "name py = Some ''y''" and nz: "name pz = Some ''z''"
    by (auto simp: map_eq_Cons_conv)
  have 1: "getCommandArgs CLI command [''a'', ''--y'', ''b'', ''c''] = Inr (ArgsOk [''a'', ''b'', ''c''])"
    by (simp add: getCommandArgs_def assms(1) its nx ny nz startsWith_def hasOwnProperty_def
        truthy_def set_property_def scanArgs.simps(2))
  have 2: "getCommandArgs CLI command [''a'', ''--x'', ''k'', ''b''] = Inr (ArgsOk [''k'', ''a'', ''b''])"
    by (simp add: getCommandArgs_def assms(1) its nx ny nz startsWith_def hasOwnProperty_def
        truthy_def set_property_def scanArgs.simps(2))
  have 3: "\<forall>p ps foundArgs orderedArgs idx merged n v.
             name p = Some n \<and> foundArgs n = Some v \<and> foundArgs ''hasOwnProperty'' = None \<longrightarrow>
             mergeArgs (p # ps) foundArgs orderedArgs idx merged
               = mergeArgs ps foundArgs orderedArgs idx (merged @ [v])"
    by (simp add: hasOwnProperty_ok)
  from 1 2 3 show ?thesis by blast
qed

theorem getCommandArgs_keyword_fills_slot_witness:
  "map_of [(''cmd'', \<lparr>items = [\<lparr>name = Some ''x'', realtype = ''t'', pattern = None\<rparr>,
       \<lparr>name = Some ''y'', realtype = ''t'', pattern = None\<rparr>,
       \<lparr>name = Some ''z'', realtype = ''t'', pattern = None\<rparr>], minItems = 0, maxItems = 3\<rparr>)] ''cmd''
     = Some \<lparr>items = [\<lparr>name = Some ''x'', realtype = ''t'', pattern = None\<rparr>,
       \<lparr>name = Some ''y'', realtype = ''t'', pattern = None\<rparr>,
       \<lparr>name = Some ''z'', realtype = ''t'', pattern = None\<rparr>], minItems = 0, maxItems = 3\<rparr>
   \<and> getCommandArgs [(''cmd'', \<lparr>items = [\<lparr>name = Some ''x'', realtype = ''t'', pattern = None\<rparr>,
       \<lparr>name = Some ''y'', realtype = ''t'', pattern = None\<rparr>,
       \<lparr>name = Some ''z'', realtype = ''t'', pattern = None\<rparr>], minItems = 0, maxItems = 3\<rparr>)] ''cmd''
       [''a'', ''--y'', ''b'', ''c''] = Inr (ArgsOk [''a'', ''b'', ''c''])"
  using getCommandArgs_keyword_fills_slot[of
      "[(''cmd'', \<lparr>items = [\<lparr>name = Some ''x'', realtype = ''t'', pattern = None\<rparr>,
       \<lparr>name = Some ''y'', realtype = ''t'', pattern = None\<rparr>,
       \<lparr>name = Some ''z'', realtype = ''t'', pattern = None\<rparr>], minItems = 0, maxItems = 3\<rparr>)]"
      "''cmd''"
      "\<lparr>items = [\<lparr>name = Some ''x'', realtype = ''t'', pattern = None\<rparr>,
       \<lparr>name = Some ''y'', realtype = ''t'', pattern = None\<rparr>,
       \<lparr>name = Some ''z'', realtype = ''t'', pattern = None\<rparr>], minItems = 0, maxItems = 3\<rparr>"]
  by simp

text \<open>
  C6, as stated, fails: a final \<^verbatim>\<open>--name\<close> whose name is not declared is reported as an
  unknown argument; a final \<^verbatim>\<open>--name\<close> that directly follows a declared keyword is that
  keyword's value and the resolution succeeds; and a final \<^verbatim>\<open>--name\<close> whose name was
  captured before is reported as a duplicate.
\<close>

theorem getCommandArgs_missing_value_counterexample:
  "getCommandArgs CLI_ARGS ''whois'' [''--bogus''] = Inr (ArgsError (UnknownArgument ''--bogus''))
   \<and> getCommandArgs CLI_ARGS ''whois'' [''--blockstack_id'', ''--blockstack_id'']
       = Inr (ArgsOk [''--blockstack_id''])
   \<and> getCommandArgs CLI_ARGS ''whois'' [''--blockstack_id'', ''a.id'', ''--blockstack_id'']
       = Inr (ArgsError (DuplicateArgument ''--blockstack_id''))"
  by code_simp

text \<open>
  C6, amended. For every command of the registry: when the scan has read the tokens \<open>pre\<close>
  without failure, the next and last token is \<^verbatim>\<open>--name\<close>, \<open>name\<close> is a declared parameter
  of the command and has not been captured in \<open>pre\<close>, then \<open>getCommandArgs\<close> fails with
  \<open>MissingValue\<close> for that token.
\<close>

theorem getCommandArgs_missing_value:
  assumes "map_of CLI_ARGS command = Some info"
    and "scanArgs (items info) pre Map.empty [] = ScanDone foundArgs orderedArgs"
    and "Some n \<in> set (map name (items info))"
    and "foundArgs n = None"
  shows "getCommandArgs CLI_ARGS command (pre @ [''--'' @ n])
           = Inr (ArgsError (MissingValue (''--'' @ n)))"
proof -
  have names: "Some ''hasOwnProperty'' \<notin> set (map name (items info))"
    using assms(1) by (rule CLI_ARGS_names)
  have f: "foundArgs ''hasOwnProperty'' = None"
    using scanArgs_found[OF names _ assms(2)] by simp
  have "scanArgs (items info) (pre @ [''--'' @ n]) Map.empty []
          = scanArgs (items info) [''--'' @ n] foundArgs orderedArgs"
    using assms(2) by (rule scanArgs_append)
  also have "\<dots> = ScanFailed (MissingValue (''--'' @ n))"
    using assms(3,4) f by (simp add: scanArgs_keyword startsWith_def)
  finally show ?thesis using assms(1) by (rule getCommandArgs_scan_failed[rotated])
qed

theorem getCommandArgs_missing_value_witness:
  "map_of CLI_ARGS ''whois'' = Some cmd_whois
   \<and> scanArgs (items cmd_whois) [''a''] Map.empty [] = ScanDone Map.empty [''a'']
   \<and> Some ''blockstack_id'' \<in> set (map name (items cmd_whois))
   \<and> getCommandArgs CLI_ARGS ''whois'' ([''a''] @ [''--'' @ ''blockstack_id''])
       = Inr (ArgsError (MissingValue (''--'' @ ''blockstack_id'')))"
proof -
  have s: "scanArgs (items cmd_whois) [''a''] Map.empty [] = ScanDone Map.empty [''a'']"
    by (simp add: scanArgs_positional startsWith_def)
  have d: "Some ''blockstack_id'' \<in> set (map name (items cmd_whois))"
    by (simp add: cmd_whois_def)
  show ?thesis
    using getCommandArgs_missing_value[OF whois_lookup s d] whois_lookup s d by simp
qed

text \<open>
  C7, as stated, fails: a second \<^verbatim>\<open>--name\<close> that directly follows the first is taken as
  the first one's value and the resolution succeeds; and when the first \<^verbatim>\<open>--name\<close> is
  followed by an empty token, or names no declared parameter, the scan stops there with
  \<open>UnknownArgument\<close> before it reaches the second one.
\<close>

theorem getCommandArgs_duplicate_counterexample:
  "getCommandArgs CLI_ARGS ''get_address'' [''--private_key'', ''--private_key'']
       = Inr (ArgsOk [''--private_key''])
   \<and> getCommandArgs CLI_ARGS ''get_address'' [''--private_key'', '''', ''--private_key'', ''k'']
       = Inr (ArgsError (UnknownArgument ''--private_key''))
   \<and> getCommandArgs CLI_ARGS ''get_address'' [''--bogus'', ''v'', ''--bogus'', ''w'']
       = Inr (ArgsError (UnknownArgument ''--bogus''))"
  by code_simp

text \<open>
  C7, amended. For every command of the registry: when the scan has read the tokens \<open>pre\<close>
  without failure and has captured \<open>name\<close> in them, a following token \<^verbatim>\<open>--name\<close> makes
  \<open>getCommandArgs\<close> fail with \<open>DuplicateArgument\<close> for that token, whatever comes after.
\<close>

theorem getCommandArgs_duplicate:
  assumes "map_of CLI_ARGS command = Some info"
    and "scanArgs (items info) pre Map.empty [] = ScanDone foundArgs orderedArgs"
    and "foundArgs n \<noteq> None"
  shows "getCommandArgs CLI_ARGS command (pre @ (''--'' @ n) # rest)
           = Inr (ArgsError (DuplicateArgument (''--'' @ n)))"
proof -
  have names: "Some ''hasOwnProperty'' \<notin> set (map name (items info))"
    using assms(1) by (rule CLI_ARGS_names)
  have f: "foundArgs ''hasOwnProperty'' = None"
    using scanArgs_found[OF names _ assms(2)] by simp
  have "scanArgs (items info) (pre @ (''--'' @ n) # rest) Map.empty []
          = scanArgs (items info) ((''--'' @ n) # rest) foundArgs orderedArgs"
    using assms(2) by (rule scanArgs_append)
  also have "\<dots> = ScanFailed (DuplicateArgument (''--'' @ n))"
    using assms(3) f by (simp add: scanArgs_keyword startsWith_def)
  finally show ?thesis using assms(1) by (rule getCommandArgs_scan_failed[rotated])
qed

theorem getCommandArgs_duplicate_witness:
  "map_of CLI_ARGS ''get_address'' = Some cmd_get_address
   \<and> scanArgs (items cmd_get_address) [''--private_key'', ''k''] Map.empty []
       = ScanDone [''private_key'' \<mapsto> ''k''] []
   \<and> getCommandArgs CLI_ARGS ''get_address''
         ([''--private_key'', ''k''] @ (''--'' @ ''private_key'') # [''b''])
       = Inr (ArgsError (DuplicateArgument (''--'' @ ''private_key'')))"
proof -
  have s: "scanArgs (items cmd_get_address) [''--private_key'', ''k''] Map.empty []
       = ScanDone [''private_key'' \<mapsto> ''k''] []"
    by (simp add: scanArgs_keyword startsWith_def cmd_get_address_def set_property_def)
  have c: "[''private_key'' \<mapsto> ''k''] ''private_key'' \<noteq> None"
    by simp
  show ?thesis
    using getCommandArgs_duplicate[OF get_address_lookup s c, of "[''b'']"] get_address_lookup s
    by simp
qed




text \<open>
  C5. \<open>checkArgs\<close> on the registry returns a result for every argument list and never
  throws. Fewer than three entries: \<^verbatim>\<open>No command given\<close> with the empty command name. A
  command that is not in the registry, a failed argument resolution, and a failed validation
  each give a failure with \<^verbatim>\<open>usage: true\<close> and the command name; otherwise the result is the
  command name with the resolved argument vector.
\<close>

theorem checkArgs_never_throws:
  "(\<exists>r. checkArgs CLI_ARGS argList = Inr r)
   \<and> (length argList \<le> 2 \<longrightarrow>
        checkArgs CLI_ARGS argList = Inr (CheckFail ''No command given'' True ''''))
   \<and> (2 < length argList \<and> map_of CLI_ARGS (argList ! 2) = None \<longrightarrow>
        checkArgs CLI_ARGS argList =
          Inr (CheckFail (''Unrecognized command '' @ [CHR 0x27] @ argList ! 2 @ [CHR 0x27])
                 True (argList ! 2)))
   \<and> (2 < length argList \<and> map_of CLI_ARGS (argList ! 2) \<noteq> None \<longrightarrow>
        (\<exists>err. getCommandArgs CLI_ARGS (argList ! 2) (drop 3 argList) = Inr (ArgsError err)
            \<and> checkArgs CLI_ARGS argList
                = Inr (CheckFail (error_message err) True (argList ! 2)))
      \<or> (\<exists>commandArgs.
            getCommandArgs CLI_ARGS (argList ! 2) (drop 3 argList) = Inr (ArgsOk commandArgs)
            \<and> checkArgs CLI_ARGS argList
                = Inr (if ajv_validate CLI_ARGS (argList ! 2) commandArgs
                       then CheckSuccess (argList ! 2) commandArgs
                       else CheckFail ''Invalid command arguments'' True (argList ! 2))))"
proof (cases "length argList \<le> 2")
  case True
  then show ?thesis by (simp add: checkArgs_def Let_def)
next
  case long: False
  let ?c = "argList ! 2"
  have own: "hasOwnProperty (map_of CLI_ARGS) ?c = Inr (map_of CLI_ARGS ?c \<noteq> None)"
    by (rule hasOwnProperty_ok) (rule CLI_ARGS_no_shadow)
  show ?thesis
  proof (cases "map_of CLI_ARGS ?c")
    case None
    with long own show ?thesis by (simp add: checkArgs_def Let_def)
  next
    case (Some info)
    have names: "Some ''hasOwnProperty'' \<notin> set (map name (items info))"
      using Some by (rule CLI_ARGS_names)
    let ?sc = "scanArgs (items info) (drop 3 argList) Map.empty []"
    have nothrow: "\<And>e. ?sc \<noteq> ScanThrew e"
      using names by (rule scanArgs_no_throw) simp
    show ?thesis
    proof (cases ?sc)
      case (ScanThrew e)
      with nothrow[of e] show ?thesis by simp
    next
      case (ScanFailed err)
      then have "getCommandArgs CLI_ARGS ?c (drop 3 argList) = Inr (ArgsError err)"
        using Some by (simp add: getCommandArgs_def)
      with long own Some show ?thesis by (simp add: checkArgs_def Let_def)
    next
      case (ScanDone f ord)
      have "f ''hasOwnProperty'' = None"
        using scanArgs_found[OF names _ ScanDone] by simp
      then obtain merged where "mergeArgs (items info) f ord 0 [] = Inr merged"
        using mergeArgs_no_throw by blast
      with ScanDone Some have "getCommandArgs CLI_ARGS ?c (drop 3 argList) = Inr (ArgsOk merged)"
        by (simp add: getCommandArgs_def)
      with long own Some show ?thesis by (simp add: checkArgs_def Let_def)
    qed
  qed
qed

theorem checkArgs_never_throws_witness:
  "checkArgs CLI_ARGS [''node'', ''cli''] = Inr (CheckFail ''No command given'' True '''')
   \<and> checkArgs CLI_ARGS [''node'', ''cli'', ''frobnicate'']
       = Inr (CheckFail (''Unrecognized command '' @ [CHR 0x27] @ ''frobnicate'' @ [CHR 0x27])
                True ''frobnicate'')
   \<and> map_of CLI_ARGS ([''node'', ''cli'', ''get_payment_key'', ''--x''] ! 2) \<noteq> None
   \<and> (\<exists>r. checkArgs CLI_ARGS [''node'', ''cli'', ''get_payment_key'', ''--x''] = Inr r)"
  using checkArgs_never_throws[of "[''node'', ''cli'']"]
    checkArgs_never_throws[of "[''node'', ''cli'', ''frobnicate'']"]
    checkArgs_never_throws[of "[''node'', ''cli'', ''get_payment_key'', ''--x'']"]
  by (simp add: CLI_ARGS_def)

section \<open>Validation: the claims\<close>

lemma private_key_params:
  "list_all (\<lambda>(c, info). list_all (\<lambda>p. realtype p = ''private_key'' \<longrightarrow>
       pattern p \<in> {Some PRIVATE_KEY_PATTERN, Some PRIVATE_KEY_UNCOMPRESSED_PATTERN,
                      Some PRIVATE_KEY_PATTERN_ANY}) (items info)) CLI_ARGS"
  by (simp add: CLI_ARGS_def cmd_defs)

lemma private_key_param_pattern:
  assumes "map_of CLI_ARGS c = Some info" and "p \<in> set (items info)"
    and "realtype p = ''private_key''"
  shows "pattern p \<in> {Some PRIVATE_KEY_PATTERN, Some PRIVATE_KEY_UNCOMPRESSED_PATTERN,
                      Some PRIVATE_KEY_PATTERN_ANY}"
proof -
  from assms(1) have mem: "(c, info) \<in> set CLI_ARGS" by (rule map_of_SomeD)
  have "\<forall>x\<in>set CLI_ARGS. case x of (c, info) \<Rightarrow>
          \<forall>p\<in>set (items info). realtype p = ''private_key'' \<longrightarrow>
       pattern p \<in> {Some PRIVATE_KEY_PATTERN, Some PRIVATE_KEY_UNCOMPRESSED_PATTERN,
                      Some PRIVATE_KEY_PATTERN_ANY}"
    using private_key_params by (simp add: list_all_iff)
  with mem have "\<forall>p\<in>set (items info). realtype p = ''private_key'' \<longrightarrow>
       pattern p \<in> {Some PRIVATE_KEY_PATTERN, Some PRIVATE_KEY_UNCOMPRESSED_PATTERN,
                      Some PRIVATE_KEY_PATTERN_ANY}"
    by fastforce
  with assms(2,3) show ?thesis by blast
qed

lemma hex_not_keyword:
  assumes "v \<noteq> []" and "set v \<subseteq> set hex_chars"
  shows "\<not> startsWith v ''--''"
proof
  assume "startsWith v ''--''"
  then have "hd v = CHR ''-''" using assms(1)
    by (cases v) (auto simp: startsWith_def)
  moreover from assms have "hd v \<in> set hex_chars" by (cases v) auto
  ultimately show False by (simp add: hex_chars_def)
qed

lemma own_get_address: "hasOwnProperty (map_of CLI_ARGS) ''get_address'' = Inr True"
  by (simp add: hasOwnProperty_ok CLI_ARGS_no_shadow get_address_lookup)

lemma checkArgs_get_address_positional:
  assumes "\<not> startsWith v ''--''"
  shows "checkArgs CLI_ARGS [a0, a1, ''get_address'', v] =
     Inr (if regex_test PRIVATE_KEY_PATTERN_ANY v then CheckSuccess ''get_address'' [v]
          else CheckFail ''Invalid command arguments'' True ''get_address'')"
proof -
  have "getCommandArgs CLI_ARGS ''get_address'' [v] = Inr (ArgsOk [v])"
    using assms
    by (simp add: getCommandArgs_def get_address_lookup cmd_get_address_def scanArgs_positional
        hasOwnProperty_def)
  moreover have "ajv_validate CLI_ARGS ''get_address'' [v] = regex_test PRIVATE_KEY_PATTERN_ANY v"
    by (simp add: ajv_validate_def get_address_lookup validate_command_def cmd_get_address_def
        validate_item_def)
  ultimately show ?thesis
    by (simp add: checkArgs_def own_get_address Let_def)
qed

lemma checkArgs_get_address_keyword:
  assumes "v \<noteq> []"
  shows "checkArgs CLI_ARGS [a0, a1, ''get_address'', ''--private_key'', v] =
     Inr (if regex_test PRIVATE_KEY_PATTERN_ANY v then CheckSuccess ''get_address'' [v]
          else CheckFail ''Invalid command arguments'' True ''get_address'')"
proof -
  have "getCommandArgs CLI_ARGS ''get_address'' [''--private_key'', v] = Inr (ArgsOk [v])"
    using assms
    by (simp add: getCommandArgs_def get_address_lookup cmd_get_address_def scanArgs_keyword
        startsWith_def hasOwnProperty_def set_property_def)
  moreover have "ajv_validate CLI_ARGS ''get_address'' [v] = regex_test PRIVATE_KEY_PATTERN_ANY v"
    by (simp add: ajv_validate_def get_address_lookup validate_command_def cmd_get_address_def
        validate_item_def)
  ultimately show ?thesis
    by (simp add: checkArgs_def own_get_address Let_def)
qed

lemma profile_sign_lookup: "map_of CLI_ARGS ''profile_sign'' = Some cmd_profile_sign"
  by (simp add: CLI_ARGS_def)

text \<open>
  C9. Every parameter of the registry whose \<^verbatim>\<open>realtype\<close> is \<^verbatim>\<open>private_key\<close> accepts a value
  of 64 lower-case hexadecimal characters and rejects one of 63 such characters and one of
  64 characters of which some is not a hexadecimal digit. Through \<open>checkArgs\<close>, on
  \<^verbatim>\<open>get_address\<close>: the 64-digit value succeeds; the two others, given as
  \<^verbatim>\<open>--private_key value\<close> (or in place, when the value does not itself begin with \<^verbatim>\<open>--\<close>),
  fail with \<^verbatim>\<open>Invalid command arguments\<close>.
\<close>

theorem private_key_validation:
  assumes "map_of CLI_ARGS command = Some info" and "p \<in> set (items info)"
    and "realtype p = ''private_key''"
  shows "(length v = 64 \<and> set v \<subseteq> set hex_chars \<longrightarrow> validate_item p v)
       \<and> (length v = 63 \<and> set v \<subseteq> set hex_chars \<longrightarrow> \<not> validate_item p v)
       \<and> (length v = 64 \<and> \<not> set v \<subseteq> set hex_chars \<longrightarrow> \<not> validate_item p v)
       \<and> (length v = 64 \<and> set v \<subseteq> set hex_chars \<longrightarrow>
            checkArgs CLI_ARGS [a0, a1, ''get_address'', v]
              = Inr (CheckSuccess ''get_address'' [v]))
       \<and> ((length v = 63 \<and> set v \<subseteq> set hex_chars) \<or> (length v = 64 \<and> \<not> set v \<subseteq> set hex_chars) \<longrightarrow>
            checkArgs CLI_ARGS [a0, a1, ''get_address'', ''--private_key'', v]
              = Inr (CheckFail ''Invalid command arguments'' True ''get_address'')
            \<and> (\<not> startsWith v ''--'' \<longrightarrow>
                 checkArgs CLI_ARGS [a0, a1, ''get_address'', v]
                   = Inr (CheckFail ''Invalid command arguments'' True ''get_address'')))"
proof -
  have any: "regex_test PRIVATE_KEY_PATTERN_ANY v \<longleftrightarrow> length v \<in> {64, 65} \<and> set v \<subseteq> set hex_chars"
    if "length v \<le> 65"
    using that by (rule PRIVATE_KEY_PATTERN_ANY_short)
  from assms have pat: "pattern p \<in> {Some PRIVATE_KEY_PATTERN, Some PRIVATE_KEY_UNCOMPRESSED_PATTERN,
                      Some PRIVATE_KEY_PATTERN_ANY}"
    by (rule private_key_param_pattern)
  have item: "validate_item p v \<longleftrightarrow> length v \<in> {64, 65} \<and> set v \<subseteq> set hex_chars
                \<or> length v = 64 \<and> set v \<subseteq> set hex_chars" if "length v \<le> 64"
    using pat that any
    by (auto simp: validate_item_def PRIVATE_KEY_PATTERN_iff PRIVATE_KEY_UNCOMPRESSED_PATTERN_iff)
  have 1: "length v = 64 \<and> set v \<subseteq> set hex_chars \<longrightarrow> validate_item p v"
    using item by auto
  have 2: "length v = 63 \<and> set v \<subseteq> set hex_chars \<longrightarrow> \<not> validate_item p v"
    using item by auto
  have 3: "length v = 64 \<and> \<not> set v \<subseteq> set hex_chars \<longrightarrow> \<not> validate_item p v"
    using item by auto
  have 4: "length v = 64 \<and> set v \<subseteq> set hex_chars \<longrightarrow>
            checkArgs CLI_ARGS [a0, a1, ''get_address'', v]
              = Inr (CheckSuccess ''get_address'' [v])"
  proof
    assume h: "length v = 64 \<and> set v \<subseteq> set hex_chars"
    then have "v \<noteq> []" by auto
    with h have "\<not> startsWith v ''--''" by (intro hex_not_keyword) auto
    then show "checkArgs CLI_ARGS [a0, a1, ''get_address'', v]
              = Inr (CheckSuccess ''get_address'' [v])"
      using h any by (simp add: checkArgs_get_address_positional)
  qed
  have 5: "(length v = 63 \<and> set v \<subseteq> set hex_chars) \<or> (length v = 64 \<and> \<not> set v \<subseteq> set hex_chars) \<longrightarrow>
            checkArgs CLI_ARGS [a0, a1, ''get_address'', ''--private_key'', v]
              = Inr (CheckFail ''Invalid command arguments'' True ''get_address'')
            \<and> (\<not> startsWith v ''--'' \<longrightarrow>
                 checkArgs CLI_ARGS [a0, a1, ''get_address'', v]
                   = Inr (CheckFail ''Invalid command arguments'' True ''get_address''))"
  proof
    assume h: "(length v = 63 \<and> set v \<subseteq> set hex_chars) \<or> (length v = 64 \<and> \<not> set v \<subseteq> set hex_chars)"
    then have ne: "v \<noteq> []" by auto
    from h have le: "length v \<le> 65" by auto
    from h any[OF le] have no: "\<not> regex_test PRIVATE_KEY_PATTERN_ANY v" by auto
    show "checkArgs CLI_ARGS [a0, a1, ''get_address'', ''--private_key'', v]
              = Inr (CheckFail ''Invalid command arguments'' True ''get_address'')
            \<and> (\<not> startsWith v ''--'' \<longrightarrow>
                 checkArgs CLI_ARGS [a0, a1, ''get_address'', v]
                   = Inr (CheckFail ''Invalid command arguments'' True ''get_address''))"
      using no ne by (simp add: checkArgs_get_address_positional checkArgs_get_address_keyword)
  qed
  from 1 2 3 4 5 show ?thesis by blast
qed

theorem private_key_validation_witness:
  "map_of CLI_ARGS ''profile_sign'' = Some cmd_profile_sign
   \<and> items cmd_profile_sign ! 1 \<in> set (items cmd_profile_sign)
   \<and> realtype (items cmd_profile_sign ! 1) = ''private_key''
   \<and> validate_item (items cmd_profile_sign ! 1)
        ''136ff26efa5db6f06b28f9c8c7a0216a1a52598045162abfe435d13036154a1b''
   \<and> \<not> validate_item (items cmd_profile_sign ! 1)
        ''136ff26efa5db6f06b28f9c8c7a0216a1a52598045162abfe435d13036154a1''
   \<and> \<not> validate_item (items cmd_profile_sign ! 1)
        ''136ff26efa5db6f06b28f9c8c7a0216a1a52598045162abfe435d13036154a1g''
   \<and> checkArgs CLI_ARGS [''node'', ''cli'', ''get_address'',
        ''136ff26efa5db6f06b28f9c8c7a0216a1a52598045162abfe435d13036154a1b'']
       = Inr (CheckSuccess ''get_address''
           [''136ff26efa5db6f06b28f9c8c7a0216a1a52598045162abfe435d13036154a1b''])
   \<and> checkArgs CLI_ARGS [''node'', ''cli'', ''get_address'', ''--private_key'',
        ''136ff26efa5db6f06b28f9c8c7a0216a1a52598045162abfe435d13036154a1g'']
       = Inr (CheckFail ''Invalid command arguments'' True ''get_address'')"
proof -
  have m: "items cmd_profile_sign ! 1 \<in> set (items cmd_profile_sign)"
    by (simp add: cmd_profile_sign_def)
  have r: "realtype (items cmd_profile_sign ! 1) = ''private_key''"
    by (simp add: cmd_profile_sign_def)
  have l64: "length ''136ff26efa5db6f06b28f9c8c7a0216a1a52598045162abfe435d13036154a1b'' = 64"
    by simp
  have h64: "set ''136ff26efa5db6f06b28f9c8c7a0216a1a52598045162abfe435d13036154a1b'' \<subseteq> set hex_chars"
    by (simp add: hex_chars_def)
  have l63: "length ''136ff26efa5db6f06b28f9c8c7a0216a1a52598045162abfe435d13036154a1'' = 63"
    by simp
  have h63: "set ''136ff26efa5db6f06b28f9c8c7a0216a1a52598045162abfe435d13036154a1'' \<subseteq> set hex_chars"
    by (simp add: hex_chars_def)
  have l64g: "length ''136ff26efa5db6f06b28f9c8c7a0216a1a52598045162abfe435d13036154a1g'' = 64"
    by simp
  have h64g: "\<not> set ''136ff26efa5db6f06b28f9c8c7a0216a1a52598045162abfe435d13036154a1g'' \<subseteq> set hex_chars"
    by (simp add: hex_chars_def)
  show ?thesis
    using private_key_validation[OF profile_sign_lookup m r,
        of "''136ff26efa5db6f06b28f9c8c7a0216a1a52598045162abfe435d13036154a1b''" "''node''" "''cli''"]
      private_key_validation[OF profile_sign_lookup m r,
        of "''136ff26efa5db6f06b28f9c8c7a0216a1a52598045162abfe435d13036154a1''" "''node''" "''cli''"]
      private_key_validation[OF profile_sign_lookup m r,
        of "''136ff26efa5db6f06b28f9c8c7a0216a1a52598045162abfe435d13036154a1g''" "''node''" "''cli''"]
      profile_sign_lookup m r l64 h64 l63 h63 l64g h64g
    by blast
qed

lemma validate_items_update:
  "k < length ps \<Longrightarrow> pattern (ps ! k) = None
     \<Longrightarrow> validate_items ps (args[k := v]) = validate_items ps args"
proof (induction ps args arbitrary: k rule: validate_items.induct)
  case (1 p ps w ws)
  then show ?case by (cases k) (simp_all add: validate_item_def)
qed simp_all

lemma get_payment_key_lookup: "map_of CLI_ARGS ''get_payment_key'' = Some cmd_get_payment_key"
  by (simp add: CLI_ARGS_def)

lemma checkArgs_get_payment_key:
  assumes "\<not> startsWith v ''--''"
  shows "checkArgs CLI_ARGS [a0, a1, ''get_payment_key'', v]
           = Inr (CheckSuccess ''get_payment_key'' [v])"
proof -
  have "getCommandArgs CLI_ARGS ''get_payment_key'' [v] = Inr (ArgsOk [v])"
    using assms
    by (simp add: getCommandArgs_def get_payment_key_lookup cmd_get_payment_key_def
        scanArgs_positional hasOwnProperty_def)
  moreover have "ajv_validate CLI_ARGS ''get_payment_key'' [v]"
    by (simp add: ajv_validate_def get_payment_key_lookup validate_command_def
        cmd_get_payment_key_def validate_item_def)
  moreover have "hasOwnProperty (map_of CLI_ARGS) ''get_payment_key'' = Inr True"
    by (simp add: hasOwnProperty_ok CLI_ARGS_no_shadow get_payment_key_lookup)
  ultimately show ?thesis
    by (simp add: checkArgs_def Let_def)
qed

text \<open>
  C4, as stated, fails: a parameter without a pattern accepts the empty string too. The
  \<^verbatim>\<open>backup_phrase\<close> of \<^verbatim>\<open>gaia_dump_bucket\<close> and of \<^verbatim>\<open>get_payment_key\<close> are such parameters,
  and \<open>checkArgs\<close> succeeds with an empty token in their place.
\<close>

theorem validate_without_pattern_counterexample:
  "pattern (items cmd_gaia_dump_bucket ! 3) = None
   \<and> name (items cmd_gaia_dump_bucket ! 3) = Some ''backup_phrase''
   \<and> validate_item (items cmd_gaia_dump_bucket ! 3) ''''
   \<and> checkArgs CLI_ARGS [''node'', ''cli'', ''gaia_dump_bucket'',
        ''foo.id'', ''http://a'', ''http://b'', '''', ''/tmp'']
       = Inr (CheckSuccess ''gaia_dump_bucket'' [''foo.id'', ''http://a'', ''http://b'', '''', ''/tmp''])
   \<and> checkArgs CLI_ARGS [''node'', ''cli'', ''get_payment_key'', '''']
       = Inr (CheckSuccess ''get_payment_key'' [''''])"
  by code_simp

text \<open>
  C4, amended. A parameter declared without a pattern accepts every string, the empty one
  included: its value has no influence on the validation of the argument vector, and
  \<open>checkArgs\<close> on \<^verbatim>\<open>get_payment_key\<close> succeeds with any token that is not read as a keyword.
\<close>

theorem validate_without_pattern:
  assumes "pattern p = None"
  shows "validate_item p v
       \<and> (\<forall>info args k. k < length (items info) \<and> items info ! k = p \<longrightarrow>
             validate_command info (args[k := v]) = validate_command info args)
       \<and> (\<forall>a0 a1. \<not> startsWith v ''--'' \<longrightarrow>
             checkArgs CLI_ARGS [a0, a1, ''get_payment_key'', v]
               = Inr (CheckSuccess ''get_payment_key'' [v]))"
proof -
  have 1: "validate_item p v"
    using assms by (simp add: validate_item_def)
  have 2: "\<forall>info args k. k < length (items info) \<and> items info ! k = p \<longrightarrow>
             validate_command info (args[k := v]) = validate_command info args"
    using assms by (auto simp: validate_command_def validate_items_update)
  have 3: "\<forall>a0 a1. \<not> startsWith v ''--'' \<longrightarrow>
             checkArgs CLI_ARGS [a0, a1, ''get_payment_key'', v]
               = Inr (CheckSuccess ''get_payment_key'' [v])"
    by (simp add: checkArgs_get_payment_key)
  from 1 2 3 show ?thesis by blast
qed

theorem validate_without_pattern_witness:
  "pattern (items cmd_gaia_dump_bucket ! 3) = None
   \<and> validate_item (items cmd_gaia_dump_bucket ! 3) ''''
   \<and> \<not> startsWith '''' ''--''
   \<and> checkArgs CLI_ARGS [''node'', ''cli'', ''get_payment_key'', '''']
       = Inr (CheckSuccess ''get_payment_key'' [''''])"
proof -
  have h: "pattern (items cmd_gaia_dump_bucket ! 3) = None"
    by (simp add: cmd_gaia_dump_bucket_def)
  have s: "\<not> startsWith '''' ''--''"
    by (simp add: startsWith_def)
  show ?thesis
    using validate_without_pattern[OF h, of "''''"] h s by simp
qed

section \<open>Configuration: the claim\<close>

lemma Object_assign_defaults:
  "Object_assign Map.empty CONFIG_DEFAULTS = map_of CONFIG_DEFAULTS"
  "Object_assign Map.empty CONFIG_REGTEST_DEFAULTS = map_of CONFIG_REGTEST_DEFAULTS"
  "Object_assign Map.empty CONFIG_TESTNET_DEFAULTS = map_of CONFIG_TESTNET_DEFAULTS"
  by (rule ext, simp add: Object_assign_def assign_property_def CONFIG_DEFAULTS_def
      CONFIG_REGTEST_DEFAULTS_def CONFIG_TESTNET_DEFAULTS_def)+

text \<open>
  C8. When the file cannot be read (it does not exist, or is unreadable) or its text is not
  JSON, \<open>loadConfig\<close> returns the built-in defaults of the network it was asked for, for
  each of \<^verbatim>\<open>mainnet\<close>, \<^verbatim>\<open>testnet\<close> and \<^verbatim>\<open>regtest\<close>, and throws nothing. It throws exactly when
  the network is none of the three, and then the error is \<^verbatim>\<open>Unregognized network\<close>.
\<close>

theorem loadConfig_defaults:
  "((\<exists>e. readFileSync configFile = Inl e)
      \<or> (\<exists>text e. readFileSync configFile = Inr text \<and> JSON_parse text = Inl e) \<longrightarrow>
        loadConfig readFileSync JSON_parse configFile ''mainnet'' = Inr (map_of CONFIG_DEFAULTS)
      \<and> loadConfig readFileSync JSON_parse configFile ''testnet'' = Inr (map_of CONFIG_TESTNET_DEFAULTS)
      \<and> loadConfig readFileSync JSON_parse configFile ''regtest'' = Inr (map_of CONFIG_REGTEST_DEFAULTS))
   \<and> ((\<exists>e. loadConfig readFileSync JSON_parse configFile networkType = Inl e)
        \<longleftrightarrow> networkType \<notin> {''mainnet'', ''testnet'', ''regtest''})
   \<and> (networkType \<notin> {''mainnet'', ''testnet'', ''regtest''} \<longrightarrow>
        loadConfig readFileSync JSON_parse configFile networkType = Inl (Error ''Unregognized network''))"
proof -
  have 1: "(\<exists>e. readFileSync configFile = Inl e)
      \<or> (\<exists>text e. readFileSync configFile = Inr text \<and> JSON_parse text = Inl e) \<longrightarrow>
        loadConfig readFileSync JSON_parse configFile ''mainnet'' = Inr (map_of CONFIG_DEFAULTS)
      \<and> loadConfig readFileSync JSON_parse configFile ''testnet'' = Inr (map_of CONFIG_TESTNET_DEFAULTS)
      \<and> loadConfig readFileSync JSON_parse configFile ''regtest'' = Inr (map_of CONFIG_REGTEST_DEFAULTS)"
    by (auto simp: loadConfig_def Object_assign_defaults)
  have 2: "(\<exists>e. loadConfig readFileSync JSON_parse configFile networkType = Inl e)
        \<longleftrightarrow> networkType \<notin> {''mainnet'', ''testnet'', ''regtest''}"
    by (auto simp: loadConfig_def Let_def split: sum.splits)
  have 3: "networkType \<notin> {''mainnet'', ''testnet'', ''regtest''} \<longrightarrow>
        loadConfig readFileSync JSON_parse configFile networkType = Inl (Error ''Unregognized network'')"
    by (simp add: loadConfig_def)
  from 1 2 3 show ?thesis by blast
qed

theorem loadConfig_defaults_witness:
  "(\<lambda>path. Inl (Error ''ENOENT'')) ''~/.blockstack-cli.conf'' = (Inl (Error ''ENOENT'') :: js_error + string)
   \<and> loadConfig (\<lambda>path. Inl (Error ''ENOENT'')) (\<lambda>text. Inr JNull) ''~/.blockstack-cli.conf'' ''mainnet''
       = Inr (map_of CONFIG_DEFAULTS)
   \<and> loadConfig (\<lambda>path. Inr ''{'') (\<lambda>text. Inl (Error ''SyntaxError'')) ''~/.blockstack-cli.conf'' ''regtest''
       = Inr (map_of CONFIG_REGTEST_DEFAULTS)
   \<and> ''bitcoin'' \<notin> {''mainnet'', ''testnet'', ''regtest''}
   \<and> loadConfig (\<lambda>path. Inr ''{'') (\<lambda>text. Inl (Error ''SyntaxError'')) ''~/.blockstack-cli.conf'' ''bitcoin''
       = Inl (Error ''Unregognized network'')"
  using loadConfig_defaults[of "\<lambda>path. Inl (Error ''ENOENT'')" "''~/.blockstack-cli.conf''" "\<lambda>text. Inr JNull" "''bitcoin''"]
    loadConfig_defaults[of "\<lambda>path. Inr ''{''" "''~/.blockstack-cli.conf''" "\<lambda>text. Inl (Error ''SyntaxError'')" "''bitcoin''"]
  by simp

section \<open>Help formatting: the claim\<close>

lemma split_on_not_Nil [simp]: "split_on c s \<noteq> []"
  by (induction s) (auto split: list.splits)

lemma split_on_Cons:
  "split_on c (x # xs) =
     (if x = c then [] # split_on c xs
      else (x # hd (split_on c xs)) # tl (split_on c xs))"
  by (cases "split_on c xs") auto
















section \<open>Option parsing: the claim\<close>





end
